theory Spec2Isabelle
  imports Main
begin

section \<open>Dock2Tauri: the launch controller of \<^verbatim>\<open>scripts/dock2tauri.py\<close>\<close>

text \<open>
  The script is a sequential controller around external tools. The model keeps the
  control flow of every method of class \<^verbatim>\<open>Dock2Tauri\<close> and of \<^verbatim>\<open>main\<close>, and makes
  explicit what Python leaves implicit:
  \<^item> the object is a record; \<^verbatim>\<open>container_id\<close> is its only field assigned after
    construction;
  \<^item> the two files the script touches (\<^verbatim>\<open>src-tauri/tauri.conf.json\<close> and its sibling
    \<^verbatim>\<open>tauri.conf.json.backup\<close>) are two optional byte strings of the world;
  \<^item> every call that leaves the process (subprocess, HTTP request, sleep, file system)
    is written to a trace and answered by the environment, which may also make the call
    raise; the environment sees the trace so far, so it may answer the same call
    differently at different times;
  \<^item> exceptions are values: a method returns \<open>Return v\<close> or \<open>Raise e\<close>.
  Strings are lists of 8-bit characters; image references and tool output are taken to
  be ASCII text.
\<close>

subsection \<open>Exceptions, results, trace\<close>

datatype exn =
    KeyboardInterrupt
  | CalledProcessError int string  \<comment> \<open>return code, captured stderr\<close>
  | OSError string                 \<comment> \<open>any other subclass of \<^verbatim>\<open>Exception\<close>\<close>

text \<open>\<^verbatim>\<open>except Exception\<close> catches everything but \<^verbatim>\<open>KeyboardInterrupt\<close>.\<close>

fun is_Exception :: "exn \<Rightarrow> bool" where
  "is_Exception KeyboardInterrupt = False"
| "is_Exception (CalledProcessError rc err) = True"
| "is_Exception (OSError msg) = True"

datatype 'a res = Return 'a | Raise exn

datatype level = Info | Success | Error | Warning

datatype event =
    Log level string     \<comment> \<open>\<^verbatim>\<open>Logger.info\<close>, \<^verbatim>\<open>success\<close>, \<^verbatim>\<open>error\<close>, \<^verbatim>\<open>warning\<close>\<close>
  | Print string         \<comment> \<open>a bare \<^verbatim>\<open>print\<close>\<close>
  | Cmd "string list"    \<comment> \<open>\<^verbatim>\<open>subprocess.run(argv, ...)\<close>\<close>
  | HttpGet string       \<comment> \<open>\<^verbatim>\<open>urllib.request.urlopen(url, timeout=1)\<close>\<close>
  | Sleep nat            \<comment> \<open>\<^verbatim>\<open>time.sleep(n)\<close>\<close>
  | Copy2                \<comment> \<open>\<^verbatim>\<open>shutil.copy2(config_file, backup_file)\<close>\<close>
  | WriteConfig string   \<comment> \<open>\<^verbatim>\<open>open(config_file, 'w')\<close> and \<^verbatim>\<open>json.dump\<close>\<close>
  | Chdir                \<comment> \<open>\<^verbatim>\<open>os.chdir(tauri_dir)\<close>\<close>
  | Rename               \<comment> \<open>\<^verbatim>\<open>backup_file.rename(config_file)\<close>\<close>

datatype proc_outcome =
    Completed int string string  \<comment> \<open>return code, stdout, stderr\<close>
  | ProcRaises exn               \<comment> \<open>\<^verbatim>\<open>subprocess.run\<close> itself raised\<close>

datatype http_outcome =
    Response nat       \<comment> \<open>a response object with this \<^verbatim>\<open>status\<close>\<close>
  | HttpRaises exn     \<comment> \<open>\<^verbatim>\<open>URLError\<close>, \<^verbatim>\<open>HTTPError\<close>, a timeout, an interrupt\<close>

datatype json =
    JNull
  | JBool bool
  | JInt int
  | JStr string
  | JList "json list"
  | JObj "(string \<times> json) list"

subsection \<open>The environment and the world\<close>

text \<open>
  Each oracle receives the trace at the moment of the call. The readiness poller's two
  oracles receive in addition the loop index \<open>i\<close> of \<^verbatim>\<open>for i in range(30)\<close>.
  \<open>json_dump\<close> and \<open>str_exn\<close> stand for the library's \<^verbatim>\<open>json.dump(config, f, indent=2)\<close>
  and \<^verbatim>\<open>str(e)\<close>.
\<close>

record env =
  proc :: "event list \<Rightarrow> string list \<Rightarrow> proc_outcome"
  urlopen :: "event list \<Rightarrow> nat \<Rightarrow> string \<Rightarrow> http_outcome"
  sleep :: "event list \<Rightarrow> nat \<Rightarrow> exn option"
  copy2 :: "event list \<Rightarrow> exn option"
  write_config :: "event list \<Rightarrow> exn option"
  chdir :: "event list \<Rightarrow> exn option"
  rename :: "event list \<Rightarrow> exn option"
  json_dump :: "json \<Rightarrow> string"
  str_exn :: "exn \<Rightarrow> string"

record world =
  fs_config :: "string option"  \<comment> \<open>bytes of \<^verbatim>\<open>src-tauri/tauri.conf.json\<close>, if it exists\<close>
  fs_backup :: "string option"  \<comment> \<open>bytes of \<^verbatim>\<open>src-tauri/tauri.conf.json.backup\<close>\<close>
  trace :: "event list"

definition emit :: "event \<Rightarrow> world \<Rightarrow> world" where
  "emit e w = w\<lparr>trace := trace w @ [e]\<rparr>"

definition log :: "level \<Rightarrow> string \<Rightarrow> world \<Rightarrow> world" where
  "log l m w = emit (Log l m) w"

text \<open>\<^verbatim>\<open>subprocess.run(argv, capture_output=True, ...)\<close>, without and with \<^verbatim>\<open>check=True\<close>.\<close>

definition subprocess_run :: "env \<Rightarrow> string list \<Rightarrow> world \<Rightarrow> (int \<times> string \<times> string) res \<times> world" where
  "subprocess_run E argv w =
     (case proc E (trace w) argv of
        Completed rc out err \<Rightarrow> (Return (rc, out, err), emit (Cmd argv) w)
      | ProcRaises e \<Rightarrow> (Raise e, emit (Cmd argv) w))"

definition subprocess_run_check :: "env \<Rightarrow> string list \<Rightarrow> world \<Rightarrow> (int \<times> string \<times> string) res \<times> world" where
  "subprocess_run_check E argv w =
     (case subprocess_run E argv w of
        (Return (rc, out, err), w') \<Rightarrow>
          if rc \<noteq> 0 then (Raise (CalledProcessError rc err), w') else (Return (rc, out, err), w')
      | (Raise e, w') \<Rightarrow> (Raise e, w'))"

subsection \<open>String helpers of Python used by the script\<close>

text \<open>\<^verbatim>\<open>str(n)\<close> for an integer.\<close>

fun str_nat :: "nat \<Rightarrow> string" where
  "str_nat n =
     (if n < 10 then [''0123456789'' ! n]
      else str_nat (n div 10) @ [''0123456789'' ! (n mod 10)])"

declare str_nat.simps [simp del]

definition str_int :: "int \<Rightarrow> string" where
  "str_int i = (if i < 0 then ''-'' @ str_nat (nat (- i)) else str_nat (nat i))"

text \<open>\<^verbatim>\<open>s.replace(a, b)\<close> for one-character \<open>a\<close> and \<open>b\<close>.\<close>

fun replace :: "char \<Rightarrow> char \<Rightarrow> string \<Rightarrow> string" where
  "replace a b [] = []"
| "replace a b (c # cs) = (if c = a then b else c) # replace a b cs"

text \<open>\<^verbatim>\<open>s.strip()\<close>: the ASCII characters for which \<^verbatim>\<open>str.isspace\<close> holds.\<close>

definition isspace :: "char \<Rightarrow> bool" where
  "isspace c = (c \<in> set [CHR '' '', CHR 0x09, CHR 0x0A, CHR 0x0B, CHR 0x0C, CHR 0x0D,
                          CHR 0x1C, CHR 0x1D, CHR 0x1E, CHR 0x1F])"

definition strip :: "string \<Rightarrow> string" where
  "strip s = rev (dropWhile isspace (rev (dropWhile isspace s)))"

text \<open>\<^verbatim>\<open>s.split(sep)\<close> for a one-character separator: never an empty list.\<close>

fun split :: "char \<Rightarrow> string \<Rightarrow> string list" where
  "split sep [] = [[]]"
| "split sep (c # cs) =
     (if c = sep then [] # split sep cs
      else (case split sep cs of [] \<Rightarrow> [[c]] | p # ps \<Rightarrow> (c # p) # ps))"

text \<open>\<^verbatim>\<open>p in s\<close> on strings.\<close>

fun startswith :: "string \<Rightarrow> string \<Rightarrow> bool" where
  "startswith s [] = True"
| "startswith [] (p # ps) = False"
| "startswith (c # cs) (p # ps) = (c = p \<and> startswith cs ps)"

fun contains :: "string \<Rightarrow> string \<Rightarrow> bool" where
  "contains [] p = (p = [])"
| "contains (c # cs) p = (startswith (c # cs) p \<or> contains cs p)"

text \<open>\<^verbatim>\<open>c.isalnum()\<close> on ASCII.\<close>

definition isalnum :: "char \<Rightarrow> bool" where
  "isalnum c = (c \<in> set (''0123456789'' @ ''abcdefghijklmnopqrstuvwxyz'' @ ''ABCDEFGHIJKLMNOPQRSTUVWXYZ''))"

subsection \<open>The controller object\<close>

record dock2tauri =
  image :: string
  host_port :: string
  container_port :: string
  container_name :: string
  container_id :: "string option"
  build_release :: bool
  build_target :: "string option"

text \<open>
  \<^verbatim>\<open>Dock2Tauri.__init__\<close>. The paths \<^verbatim>\<open>script_dir\<close>, \<^verbatim>\<open>base_dir\<close> and \<^verbatim>\<open>config_file\<close> are
  constants of the installation; the world has one slot for the file at
  \<^verbatim>\<open>config_file\<close> and one for \<^verbatim>\<open>config_file.with_suffix('.json.backup')\<close>.
\<close>

definition init :: "string \<Rightarrow> int \<Rightarrow> int \<Rightarrow> bool \<Rightarrow> string option \<Rightarrow> dock2tauri" where
  "init img hp cp rel tgt =
     \<lparr> image = img,
       host_port = str_int hp,
       container_port = str_int cp,
       container_name =
         ''dock2tauri-'' @ replace CHR ''/'' CHR ''-'' (replace CHR '':'' CHR ''-'' img) @ ''-'' @ str_int hp,
       container_id = None,
       build_release = rel,
       build_target = tgt \<rparr>"


subsection \<open>The generated configuration\<close>

text \<open>The dictionary built by \<^verbatim>\<open>update_tauri_config\<close>, keys in the order of the source.\<close>

definition tauri_config :: "dock2tauri \<Rightarrow> json" where
  "tauri_config d =
     JObj [
       (''$schema'', JStr ''../node_modules/@tauri-apps/cli/schema.json''),
       (''productName'', JStr (''Dock2Tauri - '' @
          filter (\<lambda>c. c \<notin> set [CHR ''/'', CHR 0x5C, CHR '':'', CHR ''*'', CHR ''?'', CHR 0x22,
                                  CHR ''<'', CHR ''>'', CHR ''|''])
                 (hd (split CHR '':'' (image d))))),
       (''version'', JStr ''1.0.0''),
       (''identifier'', JStr (''com.dock2tauri.'' @ filter isalnum (image d))),
       (''build'', JObj [
          (''beforeBuildCommand'', JStr ''''),
          (''beforeDevCommand'', JStr ''''),
          (''devUrl'', JStr (''http://localhost:'' @ host_port d)),
          (''frontendDist'', JStr ''../app'')]),
       (''app'', JObj [
          (''security'', JObj [(''csp'', JNull)]),
          (''windows'', JList [JObj [
             (''title'', JStr (''Dock2Tauri - '' @ image d)),
             (''width'', JInt 1200),
             (''height'', JInt 800),
             (''minWidth'', JInt 600),
             (''minHeight'', JInt 400),
             (''resizable'', JBool True),
             (''fullscreen'', JBool False)]])]),
       (''bundle'', JObj [
          (''active'', JBool True),
          (''targets'', JList [JStr ''appimage'', JStr ''deb'', JStr ''rpm'']),
          (''icon'', JList []),
          (''resources'', JList []),
          (''externalBin'', JList []),
          (''copyright'', JStr ''''),
          (''category'', JStr ''DeveloperTool''),
          (''shortDescription'', JStr ''Docker App in Tauri''),
          (''longDescription'', JStr (''Running '' @ image d @ '' as desktop application''))]),
       (''plugins'', JObj [])]"

text \<open>Reading a key of a JSON object, as \<^verbatim>\<open>config["build"]["devUrl"]\<close> would.\<close>

fun json_get :: "string \<Rightarrow> json \<Rightarrow> json option" where
  "json_get k (JObj kvs) = map_of kvs k"
| "json_get k j = None"

subsection \<open>Sequencing\<close>

text \<open>One statement after another: an exception skips what follows.\<close>

definition and_then :: "'a res \<times> world \<Rightarrow> ('a \<Rightarrow> world \<Rightarrow> 'b res \<times> world) \<Rightarrow> 'b res \<times> world" where
  "and_then m f = (case m of (Return v, w) \<Rightarrow> f v w | (Raise e, w) \<Rightarrow> (Raise e, w))"

subsection \<open>\<^verbatim>\<open>_command_exists\<close> and \<^verbatim>\<open>check_dependencies\<close>\<close>

definition command_exists :: "env \<Rightarrow> string \<Rightarrow> world \<Rightarrow> bool res \<times> world" where
  "command_exists E c w =
     and_then (subprocess_run E [''which'', c] w) (\<lambda>(rc, out, err) w'. (Return (rc = 0), w'))"

definition check_dependencies :: "env \<Rightarrow> dock2tauri \<Rightarrow> world \<Rightarrow> bool res \<times> world" where
  "check_dependencies E d w =
     and_then (command_exists E ''docker'' (log Info ''Checking dependencies...'' w))
       (\<lambda>have_docker w1.
          if \<not> have_docker
          then (Return False, log Error ''Docker not found. Please install Docker first.'' w1)
          else and_then (command_exists E ''cargo'' w1)
            (\<lambda>have_cargo w2.
               let w3 = (if \<not> have_cargo
                         then log Warning ''Rust/Cargo not found. Some features may not work.'' w2
                         else w2)
               in case subprocess_run_check E [''docker'', ''info''] w3 of
                    (Return r, w4) \<Rightarrow> (Return True, log Success ''Dependencies check passed'' w4)
                  | (Raise (CalledProcessError rc err), w4) \<Rightarrow>
                      (Return False, log Error ''Docker daemon not running. Please start Docker.'' w4)
                  | (Raise e, w4) \<Rightarrow> (Raise e, w4)))"

subsection \<open>\<^verbatim>\<open>stop_existing_containers\<close>\<close>

text \<open>The loop \<^verbatim>\<open>for container_id in container_ids\<close>.\<close>

fun stop_each :: "env \<Rightarrow> string list \<Rightarrow> world \<Rightarrow> unit res \<times> world" where
  "stop_each E [] w = (Return (), w)"
| "stop_each E (cid # cids) w =
     and_then (subprocess_run E [''docker'', ''stop'', cid] w) (\<lambda>r w'. stop_each E cids w')"

text \<open>The body of the \<^verbatim>\<open>try\<close>.\<close>

definition stop_existing_body :: "env \<Rightarrow> dock2tauri \<Rightarrow> world \<Rightarrow> unit res \<times> world" where
  "stop_existing_body E d w =
     and_then (subprocess_run E [''docker'', ''ps'', ''-q'', ''--filter'', ''publish='' @ host_port d] w)
       (\<lambda>(rc, out, err) w1.
          and_then
            (if strip out \<noteq> []
             then and_then (stop_each E (split CHR 0x0A (strip out)) w1)
                    (\<lambda>u w2. (Return (), log Success ''Stopped existing containers'' w2))
             else (Return (), w1))
            (\<lambda>u w2.
               and_then (subprocess_run E [''docker'', ''ps'', ''-a'', ''--filter'', ''name='' @ container_name d] w2)
                 (\<lambda>(rc', out', err') w3.
                    if contains out' (container_name d)
                    then and_then (subprocess_run E [''docker'', ''rm'', container_name d] w3)
                           (\<lambda>r w4. (Return (), log Success (''Removed old container: '' @ container_name d) w4))
                    else (Return (), w3))))"

definition stop_existing_containers :: "env \<Rightarrow> dock2tauri \<Rightarrow> world \<Rightarrow> unit res \<times> world" where
  "stop_existing_containers E d w =
     (case stop_existing_body E d
             (log Info (''Stopping existing containers on port '' @ host_port d @ ''...'') w) of
        (Return u, w1) \<Rightarrow> (Return (), w1)
      | (Raise e, w1) \<Rightarrow>
          if is_Exception e
          then (Return (), log Warning (''Error during cleanup: '' @ str_exn E e) w1)
          else (Raise e, w1))"

subsection \<open>\<^verbatim>\<open>launch_container\<close>\<close>

definition docker_run_argv :: "dock2tauri \<Rightarrow> string list" where
  "docker_run_argv d =
     [''docker'', ''run'', ''-d'',
      ''-p'', host_port d @ '':'' @ container_port d,
      ''--name'', container_name d,
      ''--restart'', ''unless-stopped'',
      image d]"

definition launch_container :: "env \<Rightarrow> dock2tauri \<Rightarrow> world \<Rightarrow> bool res \<times> dock2tauri \<times> world" where
  "launch_container E d w =
     (let w0 = log Info (''Container Port: '' @ container_port d)
                 (log Info (''Host Port: '' @ host_port d)
                   (log Info (''Image: '' @ image d)
                     (log Info ''Launching Docker container...'' w)))
      in case subprocess_run_check E (docker_run_argv d) w0 of
           (Return (rc, out, err), w1) \<Rightarrow>
             (Return True, d\<lparr>container_id := Some (strip out)\<rparr>,
              log Success (''Access at: http://localhost:'' @ host_port d)
                (log Success (''Container launched: '' @ strip out) w1))
         | (Raise (CalledProcessError rc err), w1) \<Rightarrow>
             (Return False, d,
              log Error (''Error: '' @ err) (log Error ''Failed to launch container'' w1))
         | (Raise e, w1) \<Rightarrow> (Raise e, d, w1))"

subsection \<open>\<^verbatim>\<open>wait_for_service\<close>\<close>

text \<open>
  The loop \<^verbatim>\<open>for i in range(30)\<close>: \<open>i\<close> is the loop index and \<open>n\<close> the number of
  iterations left. \<open>Return True\<close> is the \<^verbatim>\<open>return True\<close> inside the loop, \<open>Return False\<close>
  the loop running out. The bare \<^verbatim>\<open>except:\<close> catches whatever the request raises; only
  the \<^verbatim>\<open>time.sleep(1)\<close> inside the handler can let an exception out.
\<close>

fun poll :: "env \<Rightarrow> string \<Rightarrow> nat \<Rightarrow> nat \<Rightarrow> world \<Rightarrow> bool res \<times> world" where
  "poll E url i 0 w = (Return False, w)"
| "poll E url i (Suc n) w =
     (case urlopen E (trace w) i url of
        Response status \<Rightarrow>
          if status = 200
          then (Return True, log Success ''Service is ready!'' (emit (HttpGet url) w))
          else poll E url (Suc i) n (emit (HttpGet url) w)
      | HttpRaises e \<Rightarrow>
          (let w1 = emit (Print ''.'') (emit (HttpGet url) w)
           in case sleep E (trace w1) i of
                Some e' \<Rightarrow> (Raise e', emit (Sleep 1) w1)
              | None \<Rightarrow> poll E url (Suc i) n (emit (Sleep 1) w1)))"

definition service_url :: "dock2tauri \<Rightarrow> string" where
  "service_url d = ''http://localhost:'' @ host_port d"

definition wait_for_service :: "env \<Rightarrow> dock2tauri \<Rightarrow> world \<Rightarrow> bool res \<times> world" where
  "wait_for_service E d w =
     (case poll E (service_url d) 0 30 (log Info ''Waiting for service to be ready...'' w) of
        (Return ready, w1) \<Rightarrow>
          if ready then (Return True, w1)
          else (Return False,
                log Warning ''Service might not be ready yet, but continuing...''
                  (emit (Print [CHR 0x0A]) w1))
      | (Raise e, w1) \<Rightarrow> (Raise e, w1))"

subsection \<open>\<^verbatim>\<open>update_tauri_config\<close>\<close>

text \<open>
  The backup copy is made outside the \<^verbatim>\<open>try\<close>, so a failing copy raises. A failing
  write is caught when it is an \<^verbatim>\<open>Exception\<close>; the model takes the write to fail at
  \<^verbatim>\<open>open\<close>, before the file is changed.
\<close>

definition backup_config :: "env \<Rightarrow> world \<Rightarrow> unit res \<times> world" where
  "backup_config E w =
     (if fs_config w \<noteq> None
      then (case copy2 E (trace w) of
              None \<Rightarrow> (Return (), (emit Copy2 w)\<lparr>fs_backup := fs_config w\<rparr>)
            | Some e \<Rightarrow> (Raise e, emit Copy2 w))
      else (Return (), w))"

definition update_tauri_config :: "env \<Rightarrow> dock2tauri \<Rightarrow> world \<Rightarrow> bool res \<times> world" where
  "update_tauri_config E d w =
     and_then (backup_config E (log Info ''Updating Tauri configuration...'' w))
       (\<lambda>u w1.
          let content = json_dump E (tauri_config d);
              w2 = emit (WriteConfig content) w1
          in case write_config E (trace w1) of
               None \<Rightarrow>
                 (Return True, log Success ''Tauri configuration updated'' (w2\<lparr>fs_config := Some content\<rparr>))
             | Some e \<Rightarrow>
                 if is_Exception e
                 then (Return False, log Error (''Failed to update Tauri config: '' @ str_exn E e) w2)
                 else (Raise e, w2))"

subsection \<open>\<^verbatim>\<open>launch_tauri\<close>\<close>

definition tauri_cmd :: "dock2tauri \<Rightarrow> string list" where
  "tauri_cmd d =
     (if build_release d
      then (case build_target d of
              Some t \<Rightarrow>
                if t \<noteq> [] then [''cargo'', ''tauri'', ''build'', ''--target'', t]
                else [''cargo'', ''tauri'', ''build'']
            | None \<Rightarrow> [''cargo'', ''tauri'', ''build''])
      else [''cargo'', ''tauri'', ''dev''])"

text \<open>The body of the \<^verbatim>\<open>try\<close>; falling out of it leads to the final \<^verbatim>\<open>return True\<close>.\<close>

definition launch_tauri_body :: "env \<Rightarrow> dock2tauri \<Rightarrow> world \<Rightarrow> bool res \<times> world" where
  "launch_tauri_body E d w =
     (case chdir E (trace w) of
        Some e \<Rightarrow> (Raise e, emit Chdir w)
      | None \<Rightarrow>
          and_then (command_exists E ''cargo'' (emit Chdir w))
            (\<lambda>have_cargo w1.
               if have_cargo
               then and_then (subprocess_run_check E (tauri_cmd d) w1) (\<lambda>r w2. (Return True, w2))
               else (Return False,
                     log Info (''Container ID: '' @ (case container_id d of Some c \<Rightarrow> c | None \<Rightarrow> ''None''))
                       (log Info (''Container is running at: http://localhost:'' @ host_port d)
                         (log Error ''Cargo not found. Please install Rust and Tauri CLI.'' w1)))))"

definition launch_tauri :: "env \<Rightarrow> dock2tauri \<Rightarrow> world \<Rightarrow> bool res \<times> world" where
  "launch_tauri E d w =
     (case launch_tauri_body E d
             (if build_release d
              then log Info ''Building Tauri release bundles (cargo tauri build)...'' w
              else log Info ''Launching Tauri application (dev)...'' w) of
        (Return r, w1) \<Rightarrow> (Return r, w1)
      | (Raise (CalledProcessError rc err), w1) \<Rightarrow>
          (Return False,
           log Error (''Failed to launch Tauri: '' @ str_exn E (CalledProcessError rc err)) w1)
      | (Raise KeyboardInterrupt, w1) \<Rightarrow> (Return True, log Info ''Application interrupted by user'' w1)
      | (Raise e, w1) \<Rightarrow> (Raise e, w1))"

subsection \<open>\<^verbatim>\<open>cleanup\<close>\<close>

text \<open>
  The container part sits in \<^verbatim>\<open>try ... except Exception\<close>; neither command is checked
  for its return code. The restore of the backup is not inside any \<^verbatim>\<open>try\<close>.
\<close>

definition cleanup_container :: "env \<Rightarrow> string \<Rightarrow> world \<Rightarrow> unit res \<times> world" where
  "cleanup_container E cid w =
     (case and_then (subprocess_run E [''docker'', ''stop'', cid] w)
             (\<lambda>r w1. and_then (subprocess_run E [''docker'', ''rm'', cid] w1)
                (\<lambda>r w2. (Return (), log Success ''Container stopped and removed'' w2))) of
        (Return u, w') \<Rightarrow> (Return (), w')
      | (Raise e, w') \<Rightarrow>
          if is_Exception e
          then (Return (), log Warning (''Error during container cleanup: '' @ str_exn E e) w')
          else (Raise e, w'))"

definition restore_backup :: "env \<Rightarrow> world \<Rightarrow> unit res \<times> world" where
  "restore_backup E w =
     (case fs_backup w of
        None \<Rightarrow> (Return (), w)
      | Some b \<Rightarrow>
          (case rename E (trace w) of
             None \<Rightarrow>
               (Return (),
                log Success ''Tauri configuration restored''
                  ((emit Rename w)\<lparr>fs_config := Some b, fs_backup := None\<rparr>))
           | Some e \<Rightarrow> (Raise e, emit Rename w)))"

definition cleanup :: "env \<Rightarrow> dock2tauri \<Rightarrow> world \<Rightarrow> unit res \<times> world" where
  "cleanup E d w =
     and_then
       (case container_id d of
          Some cid \<Rightarrow>
            if cid \<noteq> [] then cleanup_container E cid (log Info ''Cleaning up...'' w)
            else (Return (), log Info ''Cleaning up...'' w)
        | None \<Rightarrow> (Return (), log Info ''Cleaning up...'' w))
       (\<lambda>u w1. restore_backup E w1)"

subsection \<open>\<^verbatim>\<open>run\<close> and \<^verbatim>\<open>main\<close>\<close>

text \<open>
  The body of the \<^verbatim>\<open>try\<close> of \<^verbatim>\<open>run\<close>: \<open>Return (Some b)\<close> is an early \<^verbatim>\<open>return b\<close>,
  \<open>Return None\<close> is falling out of the block. The results of \<^verbatim>\<open>wait_for_service\<close>,
  \<^verbatim>\<open>update_tauri_config\<close> and \<^verbatim>\<open>launch_tauri\<close> are not looked at.
\<close>

definition run_body :: "env \<Rightarrow> dock2tauri \<Rightarrow> world \<Rightarrow> bool option res \<times> dock2tauri \<times> world" where
  "run_body E d w =
     (case check_dependencies E d w of
        (Raise e, w1) \<Rightarrow> (Raise e, d, w1)
      | (Return deps_ok, w1) \<Rightarrow>
          if \<not> deps_ok then (Return (Some False), d, w1)
          else (case stop_existing_containers E d w1 of
             (Raise e, w2) \<Rightarrow> (Raise e, d, w2)
           | (Return u, w2) \<Rightarrow>
               (case launch_container E d w2 of
                  (Raise e, d', w3) \<Rightarrow> (Raise e, d', w3)
                | (Return launched, d', w3) \<Rightarrow>
                    if \<not> launched then (Return (Some False), d', w3)
                    else (case wait_for_service E d' w3 of
                       (Raise e, w4) \<Rightarrow> (Raise e, d', w4)
                     | (Return ready, w4) \<Rightarrow>
                         (case update_tauri_config E d' w4 of
                            (Raise e, w5) \<Rightarrow> (Raise e, d', w5)
                          | (Return written, w5) \<Rightarrow>
                              (case launch_tauri E d' w5 of
                                 (Raise e, w6) \<Rightarrow> (Raise e, d', w6)
                               | (Return r, w6) \<Rightarrow> (Return None, d', w6)))))))"

text \<open>
  The handlers and the \<^verbatim>\<open>finally\<close> of \<^verbatim>\<open>run\<close>, then the last \<^verbatim>\<open>return True\<close>. An
  exception raised by \<^verbatim>\<open>cleanup\<close> inside \<^verbatim>\<open>finally\<close> replaces the pending result.
  The decoration of the banner (colour codes, emoji) is left out of the recorded text.
\<close>

definition handlers :: "env \<Rightarrow> bool option res \<Rightarrow> world \<Rightarrow> bool \<times> world" where
  "handlers E r w =
     (case r of
        Return (Some b) \<Rightarrow> (b, w)
      | Return None \<Rightarrow> (True, w)
      | Raise e \<Rightarrow>
          if is_Exception e
          then (False, log Error (''Unexpected error: '' @ str_exn E e) w)
          else (True, log Info ''Interrupted by user'' w))"

definition banner :: "world \<Rightarrow> world" where
  "banner w =
     emit (Print ''=================================================='')
       (emit (Print ''Dock2Tauri - Docker to Desktop Bridge'') w)"

definition run :: "env \<Rightarrow> dock2tauri \<Rightarrow> world \<Rightarrow> bool res \<times> dock2tauri \<times> world" where
  "run E d w =
     (case run_body E d (banner w) of
        (r, d', w1) \<Rightarrow>
          (case handlers E r w1 of
             (result, w2) \<Rightarrow>
               (case cleanup E d' w2 of
                  (Return u, w3) \<Rightarrow> (Return result, d', w3)
                | (Raise e, w3) \<Rightarrow> (Raise e, d', w3))))"

text \<open>
  \<^verbatim>\<open>main\<close> after \<^verbatim>\<open>parser.parse_args()\<close>: the parsed arguments are the input. The process
  ends with \<^verbatim>\<open>sys.exit(0 if success else 1)\<close>, or with the exception that \<^verbatim>\<open>run\<close> let out.
\<close>

record args =
  arg_image :: string
  arg_host_port :: int
  arg_container_port :: int
  arg_build :: bool
  arg_target :: "string option"
  arg_debug :: bool

datatype exit_status = Exit int | Uncaught exn

text \<open>\<^verbatim>\<open>Dock2Tauri(args.image, args.host_port, args.container_port, args.build, args.target)\<close>\<close>

definition controller :: "args \<Rightarrow> dock2tauri" where
  "controller a =
     init (arg_image a) (arg_host_port a) (arg_container_port a) (arg_build a) (arg_target a)"

definition main :: "env \<Rightarrow> args \<Rightarrow> world \<Rightarrow> exit_status \<times> world" where
  "main E a w =
     (case run E (controller a) w of
        (Return success, d, w') \<Rightarrow> (Exit (if success then 0 else 1), w')
      | (Raise e, d, w') \<Rightarrow> (Uncaught e, w'))"

subsection \<open>Observations on a run\<close>

text \<open>\<open>extends w w'\<close>: the trace of \<open>w'\<close> continues the trace of \<open>w\<close>.\<close>

definition extends :: "world \<Rightarrow> world \<Rightarrow> bool" where
  "extends w w' = (take (length (trace w)) (trace w') = trace w)"

text \<open>The events that happened between \<open>w\<close> and \<open>w'\<close>.\<close>

definition new_events :: "world \<Rightarrow> world \<Rightarrow> event list" where
  "new_events w w' = drop (length (trace w)) (trace w')"

text \<open>The number of requests sent to \<open>url\<close> so far.\<close>

definition http_gets :: "string \<Rightarrow> world \<Rightarrow> nat" where
  "http_gets url w = count_list (trace w) (HttpGet url)"

text \<open>The number of one-second pauses so far.\<close>

definition pauses :: "world \<Rightarrow> nat" where
  "pauses w = count_list (trace w) (Sleep 1)"

text \<open>\<open>same_files w w'\<close>: neither the configuration nor its backup differs between the two.\<close>

definition same_files :: "world \<Rightarrow> world \<Rightarrow> bool" where
  "same_files w w' \<longleftrightarrow> fs_config w' = fs_config w \<and> fs_backup w' = fs_backup w"


subsection \<open>Environments\<close>

text \<open>
  \<open>benign E\<close>: nothing fails in \<open>E\<close>, but the user may interrupt. Every command completes
  with return code 0 or is interrupted; sleeping, copying and changing directory succeed or
  are interrupted. The answers to the readiness requests and the outcome of writing the
  configuration are left open, and so is whatever the commands print.
\<close>

definition benign :: "env \<Rightarrow> bool" where
  "benign E \<longleftrightarrow>
     (\<forall>h argv. (\<exists>out err. proc E h argv = Completed 0 out err)
                \<or> proc E h argv = ProcRaises KeyboardInterrupt) \<and>
     (\<forall>h i. sleep E h i = None \<or> sleep E h i = Some KeyboardInterrupt) \<and>
     (\<forall>h. copy2 E h = None \<or> copy2 E h = Some KeyboardInterrupt) \<and>
     (\<forall>h. chdir E h = None \<or> chdir E h = Some KeyboardInterrupt)"

text \<open>\<open>interrupts E\<close>: some call of \<open>E\<close> is interrupted.\<close>

definition interrupts :: "env \<Rightarrow> bool" where
  "interrupts E \<longleftrightarrow>
     (\<exists>h argv. proc E h argv = ProcRaises KeyboardInterrupt) \<or>
     (\<exists>h i. sleep E h i = Some KeyboardInterrupt) \<or>
     (\<exists>h. copy2 E h = Some KeyboardInterrupt) \<or>
     (\<exists>h. write_config E h = Some KeyboardInterrupt) \<or>
     (\<exists>h. chdir E h = Some KeyboardInterrupt)"

text \<open>
  \<open>returns E P m\<close>: the step \<open>m\<close> returns a value with \<open>P\<close>, or it raises
  \<^verbatim>\<open>KeyboardInterrupt\<close> in an environment that interrupts.
\<close>

definition returns :: "env \<Rightarrow> ('a \<Rightarrow> bool) \<Rightarrow> 'a res \<times> 'b \<Rightarrow> bool" where
  "returns E P m =
     (case fst m of Return v \<Rightarrow> P v | Raise e \<Rightarrow> e = KeyboardInterrupt \<and> interrupts E)"

text \<open>
  The environment of scenario A of the specification: every tool is present and succeeds,
  \<^verbatim>\<open>docker run\<close> prints a container id, the workload answers 200 at once, and every file
  operation succeeds.
\<close>

definition quiet_env :: env where
  "quiet_env =
     \<lparr> proc = (\<lambda>h argv. Completed 0 (if take 2 argv = [''docker'', ''run''] then ''4f2a9c'' @ [CHR 0x0A] else '''') ''''),
       urlopen = (\<lambda>h i url. Response 200),
       sleep = (\<lambda>h i. None),
       copy2 = (\<lambda>h. None),
       write_config = (\<lambda>h. None),
       chdir = (\<lambda>h. None),
       rename = (\<lambda>h. None),
       json_dump = (\<lambda>j. ''{}''),
       str_exn = (\<lambda>e. ''error'') \<rparr>"

definition scenario_A :: args where
  "scenario_A =
     \<lparr> arg_image = ''nginx:alpine'', arg_host_port = 8088, arg_container_port = 80,
       arg_build = False, arg_target = None, arg_debug = False \<rparr>"

text \<open>A world with nothing at the two paths, and one where a configuration exists.\<close>

definition fresh_world :: world where
  "fresh_world = \<lparr> fs_config = None, fs_backup = None, trace = [] \<rparr>"

definition configured_world :: world where
  "configured_world = \<lparr> fs_config = Some ''old'', fs_backup = None, trace = [] \<rparr>"

text \<open>A world where no configuration exists but an earlier run has left its backup.\<close>

definition stale_world :: world where
  "stale_world = \<lparr> fs_config = None, fs_backup = Some ''stale'', trace = [] \<rparr>"

text \<open>Scenario B of the specification: the daemon does not answer \<^verbatim>\<open>docker info\<close>.\<close>

definition daemon_down_env :: env where
  "daemon_down_env =
     quiet_env\<lparr>proc := \<lambda>h argv. if argv = [''docker'', ''info'']
                                then Completed 1 '''' ''Cannot connect to the Docker daemon''
                                else Completed 0 '''' ''''\<rparr>"



text \<open>The configuration file cannot be opened for writing.\<close>

definition readonly_env :: env where
  "readonly_env = quiet_env\<lparr>write_config := \<lambda>h. Some (OSError ''PermissionError'')\<rparr>"

text \<open>The backup cannot be renamed onto the configuration file.\<close>

definition norename_env :: env where
  "norename_env = quiet_env\<lparr>rename := \<lambda>h. Some (OSError ''FileExistsError'')\<rparr>"



text \<open>A request with ports outside the range of TCP ports.\<close>

definition bad_ports :: args where
  "bad_ports =
     \<lparr> arg_image = ''nginx:alpine'', arg_host_port = 70000, arg_container_port = 0,
       arg_build = False, arg_target = None, arg_debug = False \<rparr>"


section \<open>Properties\<close>

lemma extends_iff: "extends w w' \<longleftrightarrow> (\<exists>evs. trace w' = trace w @ evs)"
proof
  assume "extends w w'"
  then have "trace w' = trace w @ drop (length (trace w)) (trace w')"
    by (metis append_take_drop_id extends_def)
  then show "\<exists>evs. trace w' = trace w @ evs" ..
next
  assume "\<exists>evs. trace w' = trace w @ evs"
  then show "extends w w'" by (auto simp: extends_def)
qed

subsection \<open>Basic facts about the world\<close>

lemma trace_emit [simp]: "trace (emit e w) = trace w @ [e]"
  and fs_config_emit [simp]: "fs_config (emit e w) = fs_config w"
  and fs_backup_emit [simp]: "fs_backup (emit e w) = fs_backup w"
  by (simp_all add: emit_def)

lemma trace_log [simp]: "trace (log l m w) = trace w @ [Log l m]"
  and fs_config_log [simp]: "fs_config (log l m w) = fs_config w"
  and fs_backup_log [simp]: "fs_backup (log l m w) = fs_backup w"
  by (simp_all add: log_def)

lemma and_then_Return [simp]: "and_then (Return v, w) f = f v w"
  and and_then_Raise [simp]: "and_then (Raise e, w) f = (Raise e, w)"
  by (simp_all add: and_then_def)

lemmas phase_splits =
  prod.splits res.splits exn.splits option.splits proc_outcome.splits http_outcome.splits if_splits

subsection \<open>Every method only appends to the trace\<close>

lemma extends_subprocess_run:
  "subprocess_run E argv w = (r, w') \<Longrightarrow> extends w w'"
  by (auto simp: subprocess_run_def extends_iff split: proc_outcome.splits)

lemma extends_subprocess_run_check:
  "subprocess_run_check E argv w = (r, w') \<Longrightarrow> extends w w'"
  by (auto simp: subprocess_run_check_def split: phase_splits dest: extends_subprocess_run)

lemma extends_command_exists:
  "command_exists E c w = (r, w') \<Longrightarrow> extends w w'"
  by (auto simp: command_exists_def and_then_def split: phase_splits dest: extends_subprocess_run)

lemma extends_check_dependencies:
  "check_dependencies E d w = (r, w') \<Longrightarrow> extends w w'"
  by (auto simp: check_dependencies_def and_then_def Let_def extends_iff split: phase_splits
           dest!: extends_command_exists extends_subprocess_run_check)

lemma extends_refl [simp]: "extends w w"
  by (simp add: extends_iff)

lemma extends_trans [trans]: "extends w w' \<Longrightarrow> extends w' w'' \<Longrightarrow> extends w w''"
  by (auto simp: extends_iff)

lemma extends_stop_each:
  "stop_each E cids w = (r, w') \<Longrightarrow> extends w w'"
proof (induction cids arbitrary: w)
  case Nil
  then show ?case by (simp add: extends_iff)
next
  case (Cons cid cids)
  show ?case
  proof (cases "subprocess_run E [''docker'', ''stop'', cid] w")
    case (Pair r1 w1)
    then have step: "extends w w1" by (rule extends_subprocess_run)
    show ?thesis
    proof (cases r1)
      case (Return v)
      with Pair Cons.prems have "stop_each E cids w1 = (r, w')" by simp
      then have "extends w1 w'" by (rule Cons.IH)
      with step show ?thesis by (rule extends_trans)
    next
      case (Raise e)
      with Pair Cons.prems step show ?thesis by simp
    qed
  qed
qed

lemma extends_stop_existing_body:
  "stop_existing_body E d w = (r, w') \<Longrightarrow> extends w w'"
  by (auto simp: stop_existing_body_def and_then_def extends_iff split: phase_splits
           dest!: extends_subprocess_run extends_stop_each)

lemma extends_stop_existing_containers:
  "stop_existing_containers E d w = (r, w') \<Longrightarrow> extends w w'"
  by (auto simp: stop_existing_containers_def extends_iff split: phase_splits
           dest!: extends_stop_existing_body)

lemma extends_launch_container:
  "launch_container E d w = (r, d', w') \<Longrightarrow> extends w w'"
  by (auto simp: launch_container_def Let_def extends_iff split: phase_splits
           dest!: extends_subprocess_run_check)

lemma extends_poll:
  "poll E url i n w = (r, w') \<Longrightarrow> extends w w'"
proof (induction n arbitrary: i w)
  case 0
  then show ?case by (simp add: extends_iff)
next
  case (Suc n)
  then show ?case
    by (fastforce simp: Let_def extends_iff split: phase_splits)
qed

lemma extends_wait_for_service:
  "wait_for_service E d w = (r, w') \<Longrightarrow> extends w w'"
  by (auto simp: wait_for_service_def extends_iff split: phase_splits dest!: extends_poll)

lemma extends_update_tauri_config:
  "update_tauri_config E d w = (r, w') \<Longrightarrow> extends w w'"
  by (auto simp: update_tauri_config_def backup_config_def and_then_def Let_def extends_iff
           split: phase_splits)

lemma extends_launch_tauri:
  "launch_tauri E d w = (r, w') \<Longrightarrow> extends w w'"
  by (auto simp: launch_tauri_def launch_tauri_body_def and_then_def extends_iff
           split: phase_splits dest!: extends_command_exists extends_subprocess_run_check)

lemma extends_cleanup:
  "cleanup E d w = (r, w') \<Longrightarrow> extends w w'"
  by (auto simp: cleanup_def cleanup_container_def restore_backup_def and_then_def extends_iff
           split: phase_splits dest!: extends_subprocess_run)

lemma extends_run_body:
  "run_body E d w = (r, d', w') \<Longrightarrow> extends w w'"
  by (auto simp: run_body_def extends_iff split: phase_splits
           dest!: extends_check_dependencies extends_stop_existing_containers
                  extends_launch_container extends_wait_for_service
                  extends_update_tauri_config extends_launch_tauri)

lemma extends_handlers:
  "handlers E r w = (b, w') \<Longrightarrow> extends w w'"
  by (auto simp: handlers_def extends_iff split: phase_splits)

lemma extends_banner [simp]: "extends w (banner w)"
  by (simp add: banner_def extends_iff)

lemma trace_new_events: "extends w w' \<Longrightarrow> trace w' = trace w @ new_events w w'"
  by (auto simp: extends_iff new_events_def)




subsection \<open>The result of \<^verbatim>\<open>run\<close> and of \<^verbatim>\<open>main\<close>\<close>

lemma run_result:
  assumes "run_body E d (banner w) = (rb, db, wb)"
    and "handlers E rb wb = (result, wh)"
    and "cleanup E db wh = (c, wc)"
  shows "run E d w = ((case c of Return u \<Rightarrow> Return result | Raise e \<Rightarrow> Raise e), db, wc)"
  using assms by (simp add: run_def split: res.splits)

lemma main_result:
  assumes "run_body E (controller a) (banner w) = (rb, db, wb)"
    and "handlers E rb wb = (result, wh)"
    and "cleanup E db wh = (c, wc)"
  shows "main E a w =
           ((case c of Return u \<Rightarrow> Exit (if result then 0 else 1) | Raise e \<Rightarrow> Uncaught e), wc)"
  using run_result [OF assms] by (simp add: main_def split: res.splits)

lemma handlers_result:
  "fst (handlers E r w) =
     (case r of Return (Some b) \<Rightarrow> b | Return None \<Rightarrow> True | Raise e \<Rightarrow> \<not> is_Exception e)"
  by (simp add: handlers_def split: res.splits option.splits)

subsection \<open>What the steps return in a benign environment\<close>

lemma returns_Return [simp]: "returns E P (Return v, w) = P v"
  by (simp add: returns_def)

lemma returns_Raise [simp]:
  "returns E P (Raise e, w) = (e = KeyboardInterrupt \<and> interrupts E)"
  by (simp add: returns_def)

lemma returns_weaken:
  "returns E P m \<Longrightarrow> (\<And>v. P v \<Longrightarrow> Q v) \<Longrightarrow> returns E Q m"
  by (auto simp: returns_def split: res.splits)

lemma returns_and_then:
  assumes "returns E P m" and "\<And>v w. P v \<Longrightarrow> returns E Q (f v w)"
  shows "returns E Q (and_then m f)"
proof (cases m)
  case (Pair r w)
  show ?thesis
  proof (cases r)
    case (Return v)
    with Pair assms(1) have "P v" by simp
    from assms(2) [OF this, of w] Pair Return show ?thesis by simp
  next
    case (Raise e)
    with Pair assms(1) show ?thesis by simp
  qed
qed

lemma returns_not_interrupted:
  "returns E P m \<Longrightarrow> \<not> interrupts E \<Longrightarrow> \<exists>v. fst m = Return v \<and> P v"
  by (auto simp: returns_def split: res.splits)

lemma returns_cases:
  assumes "returns E P m"
  obtains (Return) v w where "m = (Return v, w)" "P v"
        | (Interrupt) w where "m = (Raise KeyboardInterrupt, w)" "interrupts E"
  using assms by (cases m) (auto simp: returns_def split: res.splits)

lemma returns_subprocess_run:
  assumes "benign E"
  shows "returns E (\<lambda>(rc, out, err). rc = 0) (subprocess_run E argv w)"
proof -
  from assms have
    "(\<exists>out err. proc E (trace w) argv = Completed 0 out err)
       \<or> proc E (trace w) argv = ProcRaises KeyboardInterrupt"
    by (simp add: benign_def)
  then show ?thesis
    by (auto simp: subprocess_run_def interrupts_def)
qed

lemma returns_subprocess_run_check:
  assumes "benign E"
  shows "returns E (\<lambda>r. True) (subprocess_run_check E argv w)"
  using returns_subprocess_run [OF assms, of argv w]
  by (auto simp: subprocess_run_check_def elim!: returns_cases)

lemma returns_command_exists:
  assumes "benign E"
  shows "returns E (\<lambda>b. b) (command_exists E c w)"
  unfolding command_exists_def
  by (rule returns_and_then [OF returns_subprocess_run [OF assms]]) auto

lemma returns_check_dependencies:
  assumes "benign E"
  shows "returns E (\<lambda>b. b) (check_dependencies E d w)"
proof -
  have last: "returns E (\<lambda>b. b)
      (case subprocess_run_check E [''docker'', ''info''] w3 of
         (Return r, w4) \<Rightarrow> (Return True, log Success ''Dependencies check passed'' w4)
       | (Raise (CalledProcessError rc err), w4) \<Rightarrow>
           (Return False, log Error ''Docker daemon not running. Please start Docker.'' w4)
       | (Raise e, w4) \<Rightarrow> (Raise e, w4))" for w3
    using returns_subprocess_run_check [OF assms, of "[''docker'', ''info'']" w3]
    by (auto elim!: returns_cases)
  show ?thesis
    unfolding check_dependencies_def
    by (rule returns_and_then [OF returns_command_exists [OF assms]])
       (auto simp: Let_def last intro!: returns_and_then [OF returns_command_exists [OF assms]])
qed

lemma returns_stop_each:
  assumes "benign E"
  shows "returns E (\<lambda>u. True) (stop_each E cids w)"
proof (induction cids arbitrary: w)
  case Nil
  show ?case by simp
next
  case (Cons cid cids)
  show ?case
    by (simp, rule returns_and_then [OF returns_subprocess_run [OF assms]]) (rule Cons.IH)
qed

lemma returns_stop_existing_body:
  assumes "benign E"
  shows "returns E (\<lambda>u. True) (stop_existing_body E d w)"
  unfolding stop_existing_body_def
  by (rule returns_and_then [OF returns_subprocess_run [OF assms]])
     (auto intro!: returns_and_then [OF returns_subprocess_run [OF assms]]
                   returns_and_then [OF returns_stop_each [OF assms]]
                   returns_and_then [where P = "\<lambda>u. True"])

lemma returns_stop_existing_containers:
  assumes "benign E"
  shows "returns E (\<lambda>u. True) (stop_existing_containers E d w)"
  using returns_stop_existing_body [OF assms, of d "log Info (''Stopping existing containers on port '' @ host_port d @ ''...'') w"]
  unfolding stop_existing_containers_def
  by (auto elim!: returns_cases)

lemma returns_launch_container:
  assumes "benign E"
  shows "returns E (\<lambda>b. b) (launch_container E d w)"
  using returns_subprocess_run_check [OF assms, of "docker_run_argv d"
          "log Info (''Container Port: '' @ container_port d)
             (log Info (''Host Port: '' @ host_port d)
               (log Info (''Image: '' @ image d)
                 (log Info ''Launching Docker container...'' w)))"]
  unfolding launch_container_def Let_def
  by (auto elim!: returns_cases)

lemma returns_poll:
  assumes "benign E"
  shows "returns E (\<lambda>b. True) (poll E url i n w)"
proof (induction n arbitrary: i w)
  case 0
  show ?case by simp
next
  case (Suc n)
  show ?case
  proof (cases "urlopen E (trace w) i url")
    case (Response status)
    with Suc.IH [of "Suc i" "emit (HttpGet url) w"] show ?thesis by simp
  next
    case (HttpRaises e)
    let ?w1 = "emit (Print ''.'') (emit (HttpGet url) w)"
    from assms have "sleep E (trace ?w1) i = None \<or> sleep E (trace ?w1) i = Some KeyboardInterrupt"
      unfolding benign_def by blast
    then show ?thesis
    proof
      assume "sleep E (trace ?w1) i = None"
      with HttpRaises Suc.IH [of "Suc i" "emit (Sleep 1) ?w1"] show ?thesis
        by (simp add: Let_def)
    next
      assume int: "sleep E (trace ?w1) i = Some KeyboardInterrupt"
      then have "interrupts E" unfolding interrupts_def by blast
      with HttpRaises int show ?thesis by (simp add: Let_def)
    qed
  qed
qed

lemma returns_wait_for_service:
  assumes "benign E"
  shows "returns E (\<lambda>b. True) (wait_for_service E d w)"
  using returns_poll [OF assms, of "service_url d" 0 30 "log Info ''Waiting for service to be ready...'' w"]
  unfolding wait_for_service_def
  by (auto elim!: returns_cases)

lemma returns_update_tauri_config:
  assumes "benign E"
  shows "returns E (\<lambda>b. True) (update_tauri_config E d w)"
proof -
  from assms have c: "copy2 E h = None \<or> copy2 E h = Some KeyboardInterrupt" for h
    by (simp add: benign_def)
  have b: "returns E (\<lambda>u. True) (backup_config E w0)" for w0
    using c [of "trace w0"] by (auto simp: backup_config_def interrupts_def)
  have k: "write_config E h = Some e \<Longrightarrow> \<not> is_Exception e \<Longrightarrow> e = KeyboardInterrupt \<and> interrupts E" for h e
    by (cases e) (auto simp: interrupts_def)
  show ?thesis
    unfolding update_tauri_config_def
    by (rule returns_and_then [OF b]) (auto simp: Let_def split: option.splits dest: k)
qed

lemma launch_tauri_benign:
  assumes "benign E"
  shows "\<exists>b. fst (launch_tauri E d w) = Return b"
proof -
  define wl where "wl = (if build_release d
              then log Info ''Building Tauri release bundles (cargo tauri build)...'' w
              else log Info ''Launching Tauri application (dev)...'' w)"
  from assms have c: "chdir E (trace wl) = None \<or> chdir E (trace wl) = Some KeyboardInterrupt"
    by (simp add: benign_def)
  have body: "returns E (\<lambda>b. True)
      (and_then (command_exists E ''cargo'' (emit Chdir wl))
            (\<lambda>have_cargo w1.
               if have_cargo
               then and_then (subprocess_run_check E (tauri_cmd d) w1) (\<lambda>r w2. (Return True, w2))
               else (Return False,
                     log Info (''Container ID: '' @ (case container_id d of Some c \<Rightarrow> c | None \<Rightarrow> ''None''))
                       (log Info (''Container is running at: http://localhost:'' @ host_port d)
                         (log Error ''Cargo not found. Please install Rust and Tauri CLI.'' w1)))))"
    by (rule returns_and_then [OF returns_command_exists [OF assms]])
       (auto intro!: returns_and_then [OF returns_subprocess_run_check [OF assms]])
  from c body show ?thesis
    unfolding launch_tauri_def launch_tauri_body_def wl_def [symmetric]
    by (auto elim!: returns_cases)
qed

subsection \<open>Which steps touch the two files\<close>

lemma same_files_refl [simp]: "same_files w w"
  by (simp add: same_files_def)

lemma same_files_emit [simp]: "same_files w (emit e w') = same_files w w'"
  by (simp add: same_files_def)

lemma same_files_log [simp]: "same_files w (log l m w') = same_files w w'"
  by (simp add: same_files_def)

lemma same_files_trans: "same_files w w' \<Longrightarrow> same_files w' w'' \<Longrightarrow> same_files w w''"
  by (simp add: same_files_def)

lemma same_files_subprocess_run:
  "subprocess_run E argv w = (r, w') \<Longrightarrow> same_files w w'"
  by (auto simp: subprocess_run_def split: proc_outcome.splits)

lemma same_files_subprocess_run_check:
  "subprocess_run_check E argv w = (r, w') \<Longrightarrow> same_files w w'"
  by (auto simp: subprocess_run_check_def split: phase_splits dest: same_files_subprocess_run)

lemma same_files_command_exists:
  "command_exists E c w = (r, w') \<Longrightarrow> same_files w w'"
  by (auto simp: command_exists_def and_then_def split: phase_splits dest: same_files_subprocess_run)

lemma same_files_check_dependencies:
  "check_dependencies E d w = (r, w') \<Longrightarrow> same_files w w'"
  by (auto simp: check_dependencies_def and_then_def Let_def same_files_def split: phase_splits
           dest!: same_files_command_exists same_files_subprocess_run_check)

lemma same_files_launch_tauri:
  "launch_tauri E d w = (r, w') \<Longrightarrow> same_files w w'"
  by (auto simp: launch_tauri_def launch_tauri_body_def and_then_def same_files_def
           split: phase_splits dest!: same_files_command_exists same_files_subprocess_run_check)

lemma same_files_cleanup_container:
  "cleanup_container E cid w = (r, w') \<Longrightarrow> same_files w w'"
  by (auto simp: cleanup_container_def and_then_def same_files_def
           split: phase_splits dest!: same_files_subprocess_run)

text \<open>What \<^verbatim>\<open>update_tauri_config\<close> leaves in the two slots when it returns.\<close>

lemma update_tauri_config_files:
  assumes "update_tauri_config E d w = (Return written, w')"
  shows "fs_backup w' = (case fs_config w of Some c \<Rightarrow> Some c | None \<Rightarrow> fs_backup w)"
    and "fs_config w' = (if written then Some (json_dump E (tauri_config d)) else fs_config w)"
  using assms
  by (auto simp: update_tauri_config_def backup_config_def and_then_def Let_def split: phase_splits)

subsection \<open>Facts about \<^verbatim>\<open>cleanup\<close>\<close>


lemma cleanup_container_result:
  "fst (cleanup_container E cid w) = Return ()
     \<or> (\<exists>h argv. proc E h argv = ProcRaises KeyboardInterrupt
           \<and> fst (cleanup_container E cid w) = Raise KeyboardInterrupt)"
proof -
  have k: "\<not> is_Exception e \<Longrightarrow> e = KeyboardInterrupt" for e
    by (cases e) auto
  show ?thesis
    by (auto simp: cleanup_container_def subprocess_run_def and_then_def
             split: proc_outcome.splits dest!: k)
qed




text \<open>When \<^verbatim>\<open>cleanup\<close> returns, the backup slot is empty and a backup has been restored.\<close>

lemma cleanup_Return_files:
  assumes "cleanup E d w = (Return u, w')"
  shows "fs_backup w' = None"
    and "fs_config w' = (case fs_backup w of Some b \<Rightarrow> Some b | None \<Rightarrow> fs_config w)"
proof -
  let ?w0 = "log Info ''Cleaning up...'' w"
  have r: "fs_backup w' = None \<and> fs_config w' = (case fs_backup w of Some b \<Rightarrow> Some b | None \<Rightarrow> fs_config w)"
    if "restore_backup E w1 = (Return u, w')" "same_files ?w0 w1" for w1
    using that by (auto simp: restore_backup_def same_files_def split: option.splits)
  have "\<exists>w1. restore_backup E w1 = (Return u, w') \<and> same_files ?w0 w1"
    using assms
    by (auto simp: cleanup_def and_then_def split: phase_splits dest: same_files_cleanup_container)
  with r show "fs_backup w' = None"
    and "fs_config w' = (case fs_backup w of Some b \<Rightarrow> Some b | None \<Rightarrow> fs_config w)"
    by blast+
qed

text \<open>Without a backup, \<^verbatim>\<open>cleanup\<close> leaves both files alone and renames nothing.\<close>

lemma cleanup_no_backup:
  assumes "fs_backup w = None" and "cleanup E d w = (r, w')"
  shows "same_files w w'" and "Rename \<notin> set (new_events w w')"
    and "r = Return () \<or> (r = Raise KeyboardInterrupt \<and> (\<exists>h argv. proc E h argv = ProcRaises KeyboardInterrupt))"
proof -
  let ?w0 = "log Info ''Cleaning up...'' w"
  have stop: "same_files w w1 \<and> Rename \<notin> set (new_events w w1)"
    if "cleanup_container E cid ?w0 = (r1, w1)" for cid r1 w1
    using that
    by (auto simp: cleanup_container_def subprocess_run_def and_then_def new_events_def same_files_def
             split: phase_splits)
  have res: "r1 = Return () \<or> (r1 = Raise KeyboardInterrupt \<and> (\<exists>h argv. proc E h argv = ProcRaises KeyboardInterrupt))"
    if "cleanup_container E cid ?w0 = (r1, w1)" for cid r1 w1
    using that cleanup_container_result [of E cid ?w0] by auto
  have none: "same_files w ?w0 \<and> Rename \<notin> set (new_events w ?w0)"
    by (simp add: new_events_def)
  have rest: "restore_backup E w1 = (Return (), w1)" if "same_files w w1" for w1
    using that assms(1) by (simp add: restore_backup_def same_files_def)
  from assms(2) stop res none rest
  have "same_files w w' \<and> Rename \<notin> set (new_events w w')
      \<and> (r = Return () \<or> (r = Raise KeyboardInterrupt \<and> (\<exists>h argv. proc E h argv = ProcRaises KeyboardInterrupt)))"
    by (fastforce simp: cleanup_def and_then_def split: phase_splits)
  then show "same_files w w'" and "Rename \<notin> set (new_events w w')"
    and "r = Return () \<or> (r = Raise KeyboardInterrupt \<and> (\<exists>h argv. proc E h argv = ProcRaises KeyboardInterrupt))"
    by blast+
qed


lemma restore_backup_events:
  "set (new_events w (snd (restore_backup E w))) \<subseteq> {Rename, Log Success ''Tauri configuration restored''}"
  by (auto simp: restore_backup_def new_events_def split: option.splits)

lemma restore_backup_result:
  "fst (restore_backup E w) = Return ()
     \<or> (\<exists>b e. fs_backup w = Some b \<and> rename E (trace w) = Some e \<and> fst (restore_backup E w) = Raise e)"
  by (auto simp: restore_backup_def split: option.splits)

subsection \<open>The readiness loop\<close>

lemma http_gets_emit [simp]:
  "http_gets url (emit e w) = http_gets url w + (if e = HttpGet url then 1 else 0)"
  by (simp add: http_gets_def)

lemma http_gets_log [simp]: "http_gets url (log l m w) = http_gets url w"
  by (simp add: http_gets_def)







subsection \<open>The \<^verbatim>\<open>try\<close> block of \<^verbatim>\<open>run\<close>, phase by phase\<close>

lemma run_body_phases:
  assumes "check_dependencies E d w = (r1, w1)"
    and "stop_existing_containers E d w1 = (r2, w2)"
    and "launch_container E d w2 = (r3, d3, w3)"
    and "wait_for_service E d3 w3 = (r4, w4)"
    and "update_tauri_config E d3 w4 = (r5, w5)"
    and "launch_tauri E d3 w5 = (r6, w6)"
  shows "run_body E d w =
     (case r1 of Raise e \<Rightarrow> (Raise e, d, w1)
      | Return deps_ok \<Rightarrow> if \<not> deps_ok then (Return (Some False), d, w1) else
      (case r2 of Raise e \<Rightarrow> (Raise e, d, w2)
       | Return u \<Rightarrow>
       (case r3 of Raise e \<Rightarrow> (Raise e, d3, w3)
        | Return launched \<Rightarrow> if \<not> launched then (Return (Some False), d3, w3) else
        (case r4 of Raise e \<Rightarrow> (Raise e, d3, w4)
         | Return ready \<Rightarrow>
         (case r5 of Raise e \<Rightarrow> (Raise e, d3, w5)
          | Return written \<Rightarrow>
          (case r6 of Raise e \<Rightarrow> (Raise e, d3, w6)
           | Return r \<Rightarrow> (Return None, d3, w6)))))))"
  using assms by (simp add: run_body_def split: res.splits)

lemma run_body_falls_through:
  assumes "check_dependencies E d w = (r1, w1)"
    and "stop_existing_containers E d w1 = (r2, w2)"
    and "launch_container E d w2 = (r3, d3, w3)"
    and "wait_for_service E d3 w3 = (r4, w4)"
    and "update_tauri_config E d3 w4 = (r5, w5)"
    and "launch_tauri E d3 w5 = (r6, w6)"
  shows "fst (run_body E d w) = Return None \<longleftrightarrow>
           r1 = Return True \<and> r2 = Return () \<and> r3 = Return True
           \<and> (\<exists>b. r4 = Return b) \<and> (\<exists>b. r5 = Return b) \<and> (\<exists>b. r6 = Return b)"
  unfolding run_body_phases [OF assms]
  by (cases r1; cases r2; cases r3; cases r4; cases r5; cases r6) auto

lemma run_body_returns_early:
  assumes "check_dependencies E d w = (r1, w1)"
    and "stop_existing_containers E d w1 = (r2, w2)"
    and "launch_container E d w2 = (r3, d3, w3)"
  shows "fst (run_body E d w) = Return (Some b) \<longleftrightarrow>
           \<not> b \<and> (r1 = Return False \<or> (r1 = Return True \<and> r2 = Return () \<and> r3 = Return False))"
proof -
  obtain r4 w4 where p4: "wait_for_service E d3 w3 = (r4, w4)" by force
  obtain r5 w5 where p5: "update_tauri_config E d3 w4 = (r5, w5)" by force
  obtain r6 w6 where p6: "launch_tauri E d3 w5 = (r6, w6)" by force
  show ?thesis
    unfolding run_body_phases [OF assms p4 p5 p6]
    by (cases r1; cases r2; cases r3; cases r4; cases r5; cases r6) auto
qed


lemma launch_container_issues_run:
  "Cmd (docker_run_argv d) \<in> set (new_events w (snd (snd (launch_container E d w))))"
  by (auto simp: launch_container_def subprocess_run_check_def subprocess_run_def Let_def
                 new_events_def split: phase_splits)

lemma stop_existing_containers_issues_query:
  "Cmd [''docker'', ''ps'', ''-q'', ''--filter'', ''publish='' @ host_port d]
     \<in> set (new_events w (snd (stop_existing_containers E d w)))"
proof -
  let ?w0 = "log Info (''Stopping existing containers on port '' @ host_port d @ ''...'') w"
  let ?c = "Cmd [''docker'', ''ps'', ''-q'', ''--filter'', ''publish='' @ host_port d]"
  obtain r1 w1 where b: "stop_existing_body E d ?w0 = (r1, w1)" by force
  obtain r0 w0' where q: "subprocess_run E [''docker'', ''ps'', ''-q'', ''--filter'', ''publish='' @ host_port d] ?w0 = (r0, w0')"
    by force
  have w0': "trace w0' = trace ?w0 @ [?c]"
    using q by (auto simp: subprocess_run_def split: proc_outcome.splits)
  have "extends w0' w1"
  proof (cases r0)
    case (Raise e)
    with q b show ?thesis by (simp add: stop_existing_body_def)
  next
    case (Return v)
    obtain rest where eq: "stop_existing_body E d ?w0 = rest v w0'"
      and ext: "\<And>r w'. rest v w0' = (r, w') \<Longrightarrow> extends w0' w'"
    proof
      let ?rest = "\<lambda>(rc, out, err) w1.
          and_then
            (if strip out \<noteq> []
             then and_then (stop_each E (split CHR 0x0A (strip out)) w1)
                    (\<lambda>u w2. (Return (), log Success ''Stopped existing containers'' w2))
             else (Return (), w1))
            (\<lambda>u w2.
               and_then (subprocess_run E [''docker'', ''ps'', ''-a'', ''--filter'', ''name='' @ container_name d] w2)
                 (\<lambda>(rc', out', err') w3.
                    if contains out' (container_name d)
                    then and_then (subprocess_run E [''docker'', ''rm'', container_name d] w3)
                           (\<lambda>r w4. (Return (), log Success (''Removed old container: '' @ container_name d) w4))
                    else (Return (), w3)))"
      show "stop_existing_body E d ?w0 = ?rest v w0'"
        using q Return by (simp add: stop_existing_body_def)
      show "extends w0' w'" if "?rest v w0' = (r, w')" for r w'
        using that
        by (auto simp: and_then_def extends_iff split: phase_splits
                 dest!: extends_subprocess_run extends_stop_each)
    qed
    from b eq have "rest v w0' = (r1, w1)" by simp
    then show ?thesis by (rule ext)
  qed
  then obtain evs where "trace w1 = trace w @ Log Info (''Stopping existing containers on port '' @ host_port d @ ''...'') # ?c # evs"
    using w0' by (auto simp: extends_iff)
  with b show ?thesis
    by (auto simp: stop_existing_containers_def new_events_def split: res.splits)
qed


lemma same_files_stop_each:
  "stop_each E cids w = (r, w') \<Longrightarrow> same_files w w'"
proof (induction cids arbitrary: w)
  case Nil
  then show ?case by simp
next
  case (Cons cid cids)
  show ?case
  proof (cases "subprocess_run E [''docker'', ''stop'', cid] w")
    case (Pair r1 w1)
    then have step: "same_files w w1" by (rule same_files_subprocess_run)
    show ?thesis
    proof (cases r1)
      case (Return v)
      with Pair Cons.prems have "stop_each E cids w1 = (r, w')" by simp
      then have "same_files w1 w'" by (rule Cons.IH)
      with step show ?thesis by (rule same_files_trans)
    next
      case (Raise e)
      with Pair Cons.prems step show ?thesis by simp
    qed
  qed
qed

lemma same_files_stop_existing_body:
  "stop_existing_body E d w = (r, w') \<Longrightarrow> same_files w w'"
  by (auto simp: stop_existing_body_def and_then_def same_files_def split: phase_splits
           dest!: same_files_subprocess_run same_files_stop_each)

lemma same_files_stop_existing_containers:
  "stop_existing_containers E d w = (r, w') \<Longrightarrow> same_files w w'"
  by (auto simp: stop_existing_containers_def same_files_def split: phase_splits
           dest!: same_files_stop_existing_body)

lemma same_files_launch_container:
  "launch_container E d w = (r, d', w') \<Longrightarrow> same_files w w'"
  by (auto simp: launch_container_def Let_def same_files_def split: phase_splits
           dest!: same_files_subprocess_run_check)

lemma same_files_poll:
  "poll E url i n w = (r, w') \<Longrightarrow> same_files w w'"
proof (induction n arbitrary: i w)
  case 0
  then show ?case by simp
next
  case (Suc n)
  then show ?case
    by (fastforce simp: Let_def same_files_def split: phase_splits)
qed

lemma same_files_wait_for_service:
  "wait_for_service E d w = (r, w') \<Longrightarrow> same_files w w'"
  by (auto simp: wait_for_service_def same_files_def split: phase_splits dest!: same_files_poll)

lemma same_files_banner [simp]: "same_files w (banner w)"
  by (simp add: banner_def)

lemma same_files_handlers: "same_files w (snd (handlers E r w))"
  by (simp add: handlers_def split: res.splits option.splits)

text \<open>The two files when the \<^verbatim>\<open>try\<close> block of \<^verbatim>\<open>run\<close> has run to its end.\<close>

lemma run_body_files:
  assumes "run_body E d w = (Return None, db, wb)"
  shows "fs_backup wb = (case fs_config w of Some c \<Rightarrow> Some c | None \<Rightarrow> fs_backup w)"
    and "\<exists>written w4 w5. update_tauri_config E db w4 = (Return written, w5)
           \<and> fs_config wb = (if written then Some (json_dump E (tauri_config db)) else fs_config w)"
proof -
  obtain r1 w1 where p1: "check_dependencies E d w = (r1, w1)" by force
  obtain r2 w2 where p2: "stop_existing_containers E d w1 = (r2, w2)" by force
  obtain r3 d3 w3 where p3: "launch_container E d w2 = (r3, d3, w3)" by (metis prod_cases3)
  obtain r4 w4 where p4: "wait_for_service E d3 w3 = (r4, w4)" by force
  obtain r5 w5 where p5: "update_tauri_config E d3 w4 = (r5, w5)" by force
  obtain r6 w6 where p6: "launch_tauri E d3 w5 = (r6, w6)" by force
  note ph = run_body_phases [OF p1 p2 p3 p4 p5 p6]
  from assms have "fst (run_body E d w) = Return None" by simp
  with run_body_falls_through [OF p1 p2 p3 p4 p5 p6]
  obtain written b6 where r: "r1 = Return True" "r2 = Return ()" "r3 = Return True"
      "r5 = Return written" "r6 = Return b6" and r4: "\<exists>b. r4 = Return b"
    by blast
  from assms ph r r4 have e: "db = d3" "wb = w6" by auto
  have s: "same_files w w4"
    using same_files_check_dependencies [OF p1] same_files_stop_existing_containers [OF p2]
          same_files_launch_container [OF p3] same_files_wait_for_service [OF p4]
    by (simp add: same_files_def)
  have t: "same_files w5 w6" by (rule same_files_launch_tauri [OF p6])
  from update_tauri_config_files [OF p5 [unfolded r]] s t e
  show "fs_backup wb = (case fs_config w of Some c \<Rightarrow> Some c | None \<Rightarrow> fs_backup w)"
    by (auto simp: same_files_def split: option.splits)
  from update_tauri_config_files [OF p5 [unfolded r]] s t e p5 r
  show "\<exists>written w4 w5. update_tauri_config E db w4 = (Return written, w5)
           \<and> fs_config wb = (if written then Some (json_dump E (tauri_config db)) else fs_config w)"
    by (auto simp: same_files_def)
qed

lemma update_tauri_config_written:
  "update_tauri_config E d w = (Return True, w') \<Longrightarrow> \<exists>h. write_config E h = None"
  by (auto simp: update_tauri_config_def backup_config_def and_then_def Let_def split: phase_splits)

lemma update_tauri_config_write_fails:
  assumes "update_tauri_config E d w = (Return written, w')" and "\<And>h. write_config E h \<noteq> None"
  shows "\<not> written"
  using update_tauri_config_written [of E d w w'] assms by auto

subsection \<open>A run that stops at the dependency check\<close>




subsection \<open>Whole runs\<close>

lemma run_body_benign:
  assumes "benign E"
  shows "returns E (\<lambda>r. r = None) (run_body E d w)"
proof -
  obtain r1 w1 where p1: "check_dependencies E d w = (r1, w1)" by force
  obtain r2 w2 where p2: "stop_existing_containers E d w1 = (r2, w2)" by force
  obtain r3 d3 w3 where p3: "launch_container E d w2 = (r3, d3, w3)" by (metis prod_cases3)
  obtain r4 w4 where p4: "wait_for_service E d3 w3 = (r4, w4)" by force
  obtain r5 w5 where p5: "update_tauri_config E d3 w4 = (r5, w5)" by force
  obtain r6 w6 where p6: "launch_tauri E d3 w5 = (r6, w6)" by force
  have 1: "r1 = Return True \<or> (r1 = Raise KeyboardInterrupt \<and> interrupts E)"
    using returns_check_dependencies [OF assms, of d w] p1
    by (auto simp: returns_def split: res.splits)
  have 2: "r2 = Return () \<or> (r2 = Raise KeyboardInterrupt \<and> interrupts E)"
    using returns_stop_existing_containers [OF assms, of d w1] p2
    by (auto simp: returns_def split: res.splits)
  have 3: "r3 = Return True \<or> (r3 = Raise KeyboardInterrupt \<and> interrupts E)"
    using returns_launch_container [OF assms, of d w2] p3
    by (auto simp: returns_def split: res.splits)
  have 4: "(\<exists>b. r4 = Return b) \<or> (r4 = Raise KeyboardInterrupt \<and> interrupts E)"
    using returns_wait_for_service [OF assms, of d3 w3] p4
    by (auto simp: returns_def split: res.splits)
  have 5: "(\<exists>b. r5 = Return b) \<or> (r5 = Raise KeyboardInterrupt \<and> interrupts E)"
    using returns_update_tauri_config [OF assms, of d3 w4] p5
    by (auto simp: returns_def split: res.splits)
  have 6: "\<exists>b. r6 = Return b"
    using launch_tauri_benign [OF assms, of d3 w5] p6 by simp
  show ?thesis
    unfolding run_body_phases [OF p1 p2 p3 p4 p5 p6] returns_def
    using 1 2 3 4 5 6 by auto
qed

lemma main_exit_0_benign:
  assumes "benign E"
    and "run_body E (controller a) (banner w) = (rb, db, wb)"
    and "cleanup E db (snd (handlers E rb wb)) = (Return (), wc)"
  shows "main E a w = (Exit 0, wc)"
proof -
  from run_body_benign [OF assms(1), of "controller a" "banner w"] assms(2)
  have "rb = Return None \<or> rb = Raise KeyboardInterrupt"
    by (auto simp: returns_def split: res.splits)
  then have "fst (handlers E rb wb)"
    by (auto simp: handlers_result)
  then have h: "handlers E rb wb = (True, snd (handlers E rb wb))"
    by (cases "handlers E rb wb") simp
  from main_result [OF assms(2) h assms(3)] show ?thesis
    by simp
qed

lemma cleanup_returns:
  assumes "\<And>h argv. proc E h argv \<noteq> ProcRaises KeyboardInterrupt" and "\<And>h. rename E h = None"
  shows "fst (cleanup E d w) = Return ()"
proof -
  have c: "fst (cleanup_container E cid w0) = Return ()" for cid w0
    using cleanup_container_result [of E cid w0] assms(1) by auto
  have r: "fst (restore_backup E w0) = Return ()" for w0
    using restore_backup_result [of E w0] assms(2) by auto
  have "fst (and_then m (\<lambda>u w1. restore_backup E w1)) = Return ()" if "fst m = Return ()" for m
    using that r by (cases m) auto
  then show ?thesis
    unfolding cleanup_def using c by (auto split: option.splits)
qed

lemma cleanup_rename_fails:
  assumes "\<And>h argv. proc E h argv \<noteq> ProcRaises KeyboardInterrupt"
    and "fs_backup w = Some b" and "\<And>h. rename E h = Some e"
  shows "fst (cleanup E d w) = Raise e"
proof -
  let ?w0 = "log Info ''Cleaning up...'' w"
  have r: "fst (restore_backup E w1) = Raise e" if "same_files w w1" for w1
    using that assms(2,3) by (simp add: restore_backup_def same_files_def)
  have c: "\<exists>w1. cleanup_container E cid ?w0 = (Return (), w1) \<and> same_files w w1" for cid
  proof -
    obtain r1 w1 where p: "cleanup_container E cid ?w0 = (r1, w1)" by force
    with cleanup_container_result [of E cid ?w0] assms(1) have "r1 = Return ()" by auto
    with p same_files_cleanup_container [OF p] show ?thesis by (simp add: same_files_def)
  qed
  show ?thesis
  proof (cases "\<exists>cid. container_id d = Some cid \<and> cid \<noteq> []")
    case True
    then obtain cid where cid: "container_id d = Some cid" "cid \<noteq> []" by blast
    from c [of cid] obtain w1 where "cleanup_container E cid ?w0 = (Return (), w1)" "same_files w w1"
      by blast
    with cid r [of w1] show ?thesis by (simp add: cleanup_def)
  next
    case False
    with r [of ?w0] show ?thesis by (auto simp: cleanup_def split: option.splits)
  qed
qed

lemma benign_quiet_env [simp]: "benign quiet_env"
  by (simp add: benign_def quiet_env_def)

lemma not_interrupts_quiet_env [simp]: "\<not> interrupts quiet_env"
  by (simp add: interrupts_def quiet_env_def)

lemma str_int_8088: "str_int 8088 = ''8088''"
  by (simp add: str_int_def str_nat.simps [of 8088] str_nat.simps [of 808] str_nat.simps [of 80]
        str_nat.simps [of 8])

lemma str_int_80: "str_int 80 = ''80''"
  by (simp add: str_int_def str_nat.simps [of 80] str_nat.simps [of 8])

lemma str_int_70000: "str_int 70000 = ''70000''"
  by (simp add: str_int_def str_nat.simps [of 70000] str_nat.simps [of 7000] str_nat.simps [of 700]
        str_nat.simps [of 70] str_nat.simps [of 7])

lemma str_int_0: "str_int 0 = ''0''"
  by (simp add: str_int_def str_nat.simps [of 0])

lemma controller_container_id [simp]: "container_id (controller a) = None"
  by (simp add: controller_def init_def)

lemma main_world: "snd (main E a w) = snd (snd (run E (controller a) w))"
  by (simp add: main_def split: prod.splits res.splits)

lemma main_status:
  "fst (main E a w) =
     (case fst (run E (controller a) w) of
        Return success \<Rightarrow> Exit (if success then 0 else 1) | Raise e \<Rightarrow> Uncaught e)"
  by (simp add: main_def split: prod.splits res.splits)

text \<open>\<^verbatim>\<open>run\<close> ends with \<^verbatim>\<open>cleanup\<close>, and returns exactly when \<^verbatim>\<open>cleanup\<close> does.\<close>

lemma run_ends_with_cleanup:
  obtains rb wb wh c where
    "run_body E d (banner w) = (rb, fst (snd (run E d w)), wb)"
    "wh = snd (handlers E rb wb)"
    "extends w wh"
    "cleanup E (fst (snd (run E d w))) wh = (c, snd (snd (run E d w)))"
    "fst (run E d w) = (case c of Return u \<Rightarrow> Return (fst (handlers E rb wb)) | Raise e \<Rightarrow> Raise e)"
proof -
  obtain rb db wb where b: "run_body E d (banner w) = (rb, db, wb)" by (metis prod_cases3)
  obtain result wh where h: "handlers E rb wb = (result, wh)" by force
  obtain c wc where c: "cleanup E db wh = (c, wc)" by force
  note r = run_result [OF b h c]
  have "extends w (banner w)" by simp
  also have "extends (banner w) wb" by (rule extends_run_body [OF b])
  also have "extends wb wh" by (rule extends_handlers [OF h])
  finally have e: "extends w wh" .
  show ?thesis
  proof
    show "run_body E d (banner w) = (rb, fst (snd (run E d w)), wb)" using b r by simp
    show "wh = snd (handlers E rb wb)" using h by simp
    show "extends w wh" by (rule e)
    show "cleanup E (fst (snd (run E d w))) wh = (c, snd (snd (run E d w)))" using c r by simp
    show "fst (run E d w) = (case c of Return u \<Rightarrow> Return (fst (handlers E rb wb)) | Raise e \<Rightarrow> Raise e)"
      using r h by (cases c) simp_all
  qed
qed

section \<open>The claims\<close>

subsection \<open>C7: instance name and dev-server URL\<close>

lemma replace_colon_slash:
  "replace CHR ''/'' CHR ''-'' (replace CHR '':'' CHR ''-'' s) =
     map (\<lambda>c. if c = CHR '':'' \<or> c = CHR ''/'' then CHR ''-'' else c) s"
  by (induction s) auto

lemma dev_url:
  "Option.bind (json_get ''build'' (tauri_config d)) (json_get ''devUrl'') =
     Some (JStr (''http://localhost:'' @ host_port d))"
  by (simp add: tauri_config_def)

text \<open>
  C7. For every image reference and host port, the name given to the container is
  \<^verbatim>\<open>dock2tauri-\<close>, then the image reference with every \<^verbatim>\<open>:\<close> and every \<^verbatim>\<open>/\<close> replaced by
  \<^verbatim>\<open>-\<close>, then \<^verbatim>\<open>-\<close> and the host port in decimal. It is a function of these two inputs
  alone. For \<^verbatim>\<open>nginx:alpine\<close> and port 8088 the name is \<^verbatim>\<open>dock2tauri-nginx-alpine-8088\<close>.
  The \<^verbatim>\<open>devUrl\<close> of the generated configuration is \<^verbatim>\<open>http://localhost:\<close> followed by the
  host port, here \<^verbatim>\<open>http://localhost:8088\<close>.
\<close>

theorem C7_instance_name_and_dev_url:
  "container_name (init img hp cp rel tgt) =
     ''dock2tauri-'' @ map (\<lambda>c. if c = CHR '':'' \<or> c = CHR ''/'' then CHR ''-'' else c) img
       @ ''-'' @ str_int hp
   \<and> container_name (init ''nginx:alpine'' 8088 80 rel tgt) = ''dock2tauri-nginx-alpine-8088''
   \<and> Option.bind (json_get ''build'' (tauri_config (init img hp cp rel tgt))) (json_get ''devUrl'')
       = Some (JStr (''http://localhost:'' @ str_int hp))
   \<and> Option.bind (json_get ''build'' (tauri_config (init ''nginx:alpine'' 8088 80 rel tgt)))
                   (json_get ''devUrl'')
       = Some (JStr ''http://localhost:8088'')"
proof -
  have name: "container_name (init i h c r t) =
      ''dock2tauri-'' @ map (\<lambda>c. if c = CHR '':'' \<or> c = CHR ''/'' then CHR ''-'' else c) i
        @ ''-'' @ str_int h" for i h c r t
    by (simp add: init_def replace_colon_slash)
  have port: "host_port (init i h c r t) = str_int h" for i h c r t
    by (simp add: init_def)
  show ?thesis
    by (simp add: name dev_url port str_int_8088)
qed

subsection \<open>C4: a failing restore leaves \<^verbatim>\<open>cleanup\<close> as an exception\<close>

text \<open>
  C4 says that teardown never throws. The container part of \<^verbatim>\<open>cleanup\<close> is guarded by
  \<^verbatim>\<open>try ... except Exception\<close>; the rename that restores the backup is not. Where a backup
  exists and the rename fails (on Windows \<^verbatim>\<open>Path.rename\<close> raises \<^verbatim>\<open>FileExistsError\<close> when
  the target exists, and the target was written just before), \<^verbatim>\<open>cleanup\<close> raises, \<^verbatim>\<open>run\<close>
  lets the exception out of its \<^verbatim>\<open>finally\<close>, and the process ends with a traceback
  instead of \<^verbatim>\<open>sys.exit\<close>. Both facts are shown at explicit inputs: \<^verbatim>\<open>cleanup\<close> alone
  with a backup present, and the whole of scenario A started where a configuration
  exists.
\<close>

theorem C4_cleanup_escalates_restore_failure:
  "fst (cleanup norename_env
          (controller scenario_A)
          \<lparr>fs_config = Some ''new'', fs_backup = Some ''old'', trace = []\<rparr>)
     = Raise (OSError ''FileExistsError'')
   \<and> fst (main norename_env
            scenario_A configured_world)
     = Uncaught (OSError ''FileExistsError'')"
proof -
  let ?E = norename_env
  have p: "proc ?E h argv \<noteq> ProcRaises KeyboardInterrupt" for h argv
    by (simp add: norename_env_def quiet_env_def)
  have r: "rename ?E h = Some (OSError ''FileExistsError'')" for h
    by (simp add: norename_env_def)
  have b: "benign ?E" by (simp add: benign_def norename_env_def quiet_env_def)
  have i: "\<not> interrupts ?E" by (simp add: interrupts_def norename_env_def quiet_env_def)
  have first: "fst (cleanup ?E (controller scenario_A)
          \<lparr>fs_config = Some ''new'', fs_backup = Some ''old'', trace = []\<rparr>)
     = Raise (OSError ''FileExistsError'')"
    by (rule cleanup_rename_fails [OF p _ r]) simp
  obtain rb wb wh c where
    body: "run_body ?E (controller scenario_A) (banner configured_world)
             = (rb, fst (snd (run ?E (controller scenario_A) configured_world)), wb)"
    and wh: "wh = snd (handlers ?E rb wb)"
    and c: "cleanup ?E (fst (snd (run ?E (controller scenario_A) configured_world))) wh
             = (c, snd (snd (run ?E (controller scenario_A) configured_world)))"
    and res: "fst (run ?E (controller scenario_A) configured_world)
             = (case c of Return u \<Rightarrow> Return (fst (handlers ?E rb wb)) | Raise e \<Rightarrow> Raise e)"
    by (rule run_ends_with_cleanup)
  from run_body_benign [OF b, of "controller scenario_A" "banner configured_world"] body i
  have rb: "rb = Return None"
    by (auto simp: returns_def split: res.splits)
  from run_body_files(1) [OF body [unfolded rb]]
  have "fs_backup wb = Some ''old''"
    by (simp add: configured_world_def banner_def)
  with same_files_handlers [of wb ?E rb] wh have "fs_backup wh = Some ''old''"
    by (simp add: same_files_def)
  from cleanup_rename_fails
         [where d = "fst (snd (run ?E (controller scenario_A) configured_world))", OF p this r] c
  have "c = Raise (OSError ''FileExistsError'')"
    by simp
  with res have "fst (run ?E (controller scenario_A) configured_world) = Raise (OSError ''FileExistsError'')"
    by simp
  then have "fst (main ?E scenario_A configured_world) = Uncaught (OSError ''FileExistsError'')"
    by (simp add: main_status)
  with first show ?thesis by simp
qed

subsection \<open>C5: teardown runs on every path\<close>



subsection \<open>C8: a failed dependency check aborts before anything is done\<close>



subsection \<open>C9: teardown is idempotent\<close>



subsection \<open>C3: the configuration backup and its restoration\<close>

lemma update_tauri_config_succeeds:
  assumes "\<And>h. copy2 E h = None" and "\<And>h. write_config E h = None"
  shows "\<exists>w'. update_tauri_config E d w = (Return True, w')"
  using assms by (simp add: update_tauri_config_def backup_config_def and_then_def Let_def)

text \<open>
  C3, as the specification states it, fails in its second half: when no configuration file
  exists but a backup of an earlier run lies at the backup path, \<^verbatim>\<open>update_tauri_config\<close>
  writes the new configuration without touching the backup, and \<^verbatim>\<open>cleanup\<close> then renames
  the old backup onto the target path. The file at the target path is not left as the
  write made it (nor absent, as it was before): it holds the bytes of the stale backup.
\<close>

theorem C3_stale_backup_is_restored:
  "fs_config stale_world = None
   \<and> fs_config (snd (update_tauri_config quiet_env (controller scenario_A)
                        stale_world)) = Some ''{}''
   \<and> fst (cleanup quiet_env (controller scenario_A)
           (snd (launch_tauri quiet_env (controller scenario_A)
              (snd (update_tauri_config quiet_env (controller scenario_A)
                      stale_world))))) = Return ()
   \<and> fs_config (snd (cleanup quiet_env (controller scenario_A)
           (snd (launch_tauri quiet_env (controller scenario_A)
              (snd (update_tauri_config quiet_env (controller scenario_A)
                      stale_world)))))) = Some ''stale''"
proof -
  let ?d = "controller scenario_A"
  let ?w = stale_world
  obtain w1 where u: "update_tauri_config quiet_env ?d ?w = (Return True, w1)"
    using update_tauri_config_succeeds [of quiet_env ?d ?w] by (auto simp: quiet_env_def)
  obtain r w2 where l: "launch_tauri quiet_env ?d w1 = (r, w2)" by force
  have c: "fst (cleanup quiet_env ?d w2) = Return ()"
    by (rule cleanup_returns) (simp_all add: quiet_env_def)
  then obtain w3 where c3: "cleanup quiet_env ?d w2 = (Return (), w3)"
    by (cases "cleanup quiet_env ?d w2") auto
  have f1: "fs_config w1 = Some ''{}''" "fs_backup w1 = Some ''stale''"
    using update_tauri_config_files [OF u] by (simp_all add: quiet_env_def stale_world_def)
  have f2: "fs_backup w2 = Some ''stale''"
    using same_files_launch_tauri [OF l] f1 by (simp add: same_files_def)
  have f3: "fs_config w3 = Some ''stale''"
    using cleanup_Return_files(2) [OF c3] f2 by simp
  from u l c3 f1 f3 show ?thesis by (simp add: stale_world_def)
qed

text \<open>
  C3, amended. Let \<^verbatim>\<open>update_tauri_config\<close> return (having written the new configuration or
  having failed to), then the packaging tool run, then \<^verbatim>\<open>cleanup\<close>.

  \<^item> If a configuration file with bytes \<open>old\<close> existed, the backup slot holds exactly \<open>old\<close>
    after the update, whatever it held before; and if \<^verbatim>\<open>cleanup\<close> returns, the target path
    holds exactly \<open>old\<close> again and the backup slot is empty.
  \<^item> If no configuration file existed \<^emph>\<open>and the backup slot was empty\<close>, teardown leaves both
    paths as the update left them: the new file stays, nothing is restored.
  \<^item> In general teardown leaves the files alone exactly when the backup slot is empty when
    it starts; a backup that is present is always moved onto the target path.
\<close>

theorem C3_backup_restore_round_trip:
  assumes "update_tauri_config E d w = (Return written, w1)"
    and "launch_tauri E d w1 = (r, w2)"
    and "cleanup E d w2 = (c, w3)"
  shows "(\<forall>old. fs_config w = Some old \<longrightarrow>
            fs_backup w1 = Some old
            \<and> (c = Return () \<longrightarrow> fs_config w3 = Some old \<and> fs_backup w3 = None))
       \<and> (fs_config w = None \<and> fs_backup w = None \<longrightarrow> same_files w1 w3)
       \<and> (fs_backup w2 = None \<longrightarrow> same_files w2 w3)
       \<and> (\<forall>b. fs_backup w2 = Some b \<and> c = Return () \<longrightarrow> fs_config w3 = Some b \<and> fs_backup w3 = None)"
proof -
  note u = update_tauri_config_files [OF assms(1)]
  have l: "same_files w1 w2" by (rule same_files_launch_tauri [OF assms(2)])
  have A: "fs_backup w1 = Some old \<and> (c = Return () \<longrightarrow> fs_config w3 = Some old \<and> fs_backup w3 = None)"
    if "fs_config w = Some old" for old
  proof -
    from u(1) that have b1: "fs_backup w1 = Some old" by simp
    with l have b2: "fs_backup w2 = Some old" by (simp add: same_files_def)
    have "fs_config w3 = Some old \<and> fs_backup w3 = None" if "c = Return ()"
      using cleanup_Return_files [OF assms(3) [unfolded that]] b2 by simp
    with b1 show ?thesis by simp
  qed
  have C: "same_files w2 w3" if "fs_backup w2 = None"
    by (rule cleanup_no_backup(1) [OF that assms(3)])
  have B: "same_files w1 w3" if "fs_config w = None \<and> fs_backup w = None"
  proof -
    from u(1) that have "fs_backup w1 = None" by simp
    with l have "fs_backup w2 = None" by (simp add: same_files_def)
    from C [OF this] l show ?thesis by (simp add: same_files_def)
  qed
  have D: "fs_config w3 = Some b \<and> fs_backup w3 = None" if "fs_backup w2 = Some b \<and> c = Return ()" for b
  proof -
    from that have "cleanup E d w2 = (Return (), w3)" using assms(3) by simp
    from cleanup_Return_files [OF this] that show ?thesis by simp
  qed
  from A B C D show ?thesis by blast
qed

text \<open>The round trip of scenario A, with a configuration \<open>old\<close> at the target path.\<close>

theorem C3_backup_restore_round_trip_witness:
  "fs_config configured_world = Some ''old''
   \<and> fst (update_tauri_config quiet_env (controller scenario_A) configured_world) = Return True
   \<and> fs_config (snd (update_tauri_config quiet_env (controller scenario_A) configured_world)) = Some ''{}''
   \<and> fs_backup (snd (update_tauri_config quiet_env (controller scenario_A) configured_world)) = Some ''old''
   \<and> fst (cleanup quiet_env (controller scenario_A)
           (snd (launch_tauri quiet_env (controller scenario_A)
              (snd (update_tauri_config quiet_env (controller scenario_A) configured_world))))) = Return ()
   \<and> fs_config (snd (cleanup quiet_env (controller scenario_A)
           (snd (launch_tauri quiet_env (controller scenario_A)
              (snd (update_tauri_config quiet_env (controller scenario_A) configured_world)))))) = Some ''old''
   \<and> fs_backup (snd (cleanup quiet_env (controller scenario_A)
           (snd (launch_tauri quiet_env (controller scenario_A)
              (snd (update_tauri_config quiet_env (controller scenario_A) configured_world)))))) = None"
proof -
  let ?d = "controller scenario_A"
  obtain w1 where u: "update_tauri_config quiet_env ?d configured_world = (Return True, w1)"
    using update_tauri_config_succeeds [of quiet_env ?d configured_world] by (auto simp: quiet_env_def)
  obtain r w2 where l: "launch_tauri quiet_env ?d w1 = (r, w2)" by force
  have "fst (cleanup quiet_env ?d w2) = Return ()"
    by (rule cleanup_returns) (simp_all add: quiet_env_def)
  then obtain w3 where c: "cleanup quiet_env ?d w2 = (Return (), w3)"
    by (cases "cleanup quiet_env ?d w2") auto
  have o: "fs_config configured_world = Some ''old''" by (simp add: configured_world_def)
  have n: "fs_config w1 = Some ''{}''"
    using update_tauri_config_files(2) [OF u] by (simp add: quiet_env_def)
  from C3_backup_restore_round_trip [OF u l c] o
  have "fs_backup w1 = Some ''old'' \<and> fs_config w3 = Some ''old'' \<and> fs_backup w3 = None"
    by blast
  with u l c o n show ?thesis by simp
qed

subsection \<open>C6: the readiness poller\<close>

lemma pauses_emit [simp]:
  "pauses (emit e w) = pauses w + (if e = Sleep 1 then 1 else 0)"
  by (simp add: pauses_def emit_def)

lemma pauses_log [simp]: "pauses (log l m w) = pauses w"
  by (simp add: log_def)











subsection \<open>C1: the exit code\<close>

lemma benign_readonly_env: "benign readonly_env"
  by (simp add: benign_def readonly_env_def quiet_env_def)

lemma not_interrupts_readonly_env: "\<not> interrupts readonly_env"
  by (simp add: interrupts_def readonly_env_def quiet_env_def)

lemma main_exit_code:
  assumes "run_body E (controller a) (banner w) = (rb, db, wb)"
    and "cleanup E db (snd (handlers E rb wb)) = (c, wc)"
  shows "main E a w =
           (case c of Return u \<Rightarrow> Exit (if fst (handlers E rb wb) then 0 else 1) | Raise e \<Rightarrow> Uncaught e, wc)"
proof -
  have h: "handlers E rb wb = (fst (handlers E rb wb), snd (handlers E rb wb))" by simp
  from main_result [OF assms(1) h assms(2)] show ?thesis
    by (cases c) simp_all
qed

lemma main_not_uncaught:
  assumes "\<And>dc wc. fst (cleanup E dc wc) = Return ()"
  shows "fst (main E a w) \<noteq> Uncaught e"
proof -
  obtain rb wb wh c where
    c: "cleanup E (fst (snd (run E (controller a) w))) wh = (c, snd (snd (run E (controller a) w)))"
    and res: "fst (run E (controller a) w)
                = (case c of Return u \<Rightarrow> Return (fst (handlers E rb wb)) | Raise e \<Rightarrow> Raise e)"
    by (rule run_ends_with_cleanup)
  from assms [of "fst (snd (run E (controller a) w))" wh] c have "c = Return ()" by simp
  with res show ?thesis by (simp add: main_status)
qed

text \<open>
  C1, as the specification states it, fails for the third of its failures: when the
  configuration cannot be written, \<^verbatim>\<open>update_tauri_config\<close> logs the error and returns
  \<^verbatim>\<open>False\<close>, \<^verbatim>\<open>run\<close> does not look at that result, and the process exits with code 0. In the
  run below nothing is written (no configuration exists afterwards) and the exit code is 0.
\<close>

theorem C1_config_write_failure_exits_0:
  "fst (main readonly_env scenario_A fresh_world) = Exit 0
   \<and> fs_config (snd (main readonly_env scenario_A fresh_world)) = None"
proof -
  let ?E = readonly_env and ?d = "controller scenario_A"
  obtain rb db wb where body: "run_body ?E ?d (banner fresh_world) = (rb, db, wb)"
    by (metis prod_cases3)
  from run_body_benign [OF benign_readonly_env, of ?d "banner fresh_world"] body
       not_interrupts_readonly_env
  have rb: "rb = Return None"
    by (auto simp: returns_def split: res.splits)
  let ?wh = "snd (handlers ?E rb wb)"
  have "fst (cleanup ?E db ?wh) = Return ()"
    by (rule cleanup_returns) (simp_all add: readonly_env_def quiet_env_def)
  then obtain wc where c: "cleanup ?E db ?wh = (Return (), wc)"
    by (cases "cleanup ?E db ?wh") auto
  have m: "main ?E scenario_A fresh_world = (Exit 0, wc)"
    by (rule main_exit_0_benign [OF benign_readonly_env body c])
  from run_body_files [OF body [unfolded rb]]
  obtain written w4 w5 where nb: "fs_backup wb = None"
    and u: "update_tauri_config ?E db w4 = (Return written, w5)"
    and f: "fs_config wb = (if written then Some (json_dump ?E (tauri_config db)) else None)"
    by (auto simp: fresh_world_def banner_def)
  have "\<not> written"
    by (rule update_tauri_config_write_fails [OF u]) (simp add: readonly_env_def)
  with f have nc: "fs_config wb = None" by simp
  from same_files_handlers [of wb ?E rb] nb nc
  have "fs_backup ?wh = None" "fs_config ?wh = None"
    by (simp_all add: same_files_def)
  with cleanup_no_backup(1) [OF _ c] have "fs_config wc = None"
    by (simp add: same_files_def)
  with m show ?thesis by simp
qed

text \<open>
  C1, amended. The exit code of a run is decided by the dependency check, by the start of
  the container and by exceptions only. Let \<open>r1\<close>, ..., \<open>r6\<close> be the results of the six
  phases (dependency check, removal of old containers, container start, readiness poll,
  configuration update, packaging tool), each started in the state the one before has
  left, and let teardown return (the process then ends with an exit code; otherwise it ends
  with the exception of \<^verbatim>\<open>cleanup\<close>).

  \<^item> The exit code is 1 exactly when the dependency check returns \<^verbatim>\<open>False\<close>, or the
    container start returns \<^verbatim>\<open>False\<close>, or an exception other than a user interrupt leaves
    one of the phases.
  \<^item> The exit code is 0 exactly when all six phases return, the first and the third with
    \<^verbatim>\<open>True\<close>, or a user interrupt leaves one of the phases.
  \<^item> No other exit code occurs.
  \<^item> In particular neither a readiness timeout, nor a configuration that could not be
    written, nor a packaging tool that failed or is missing (the results \<^verbatim>\<open>False\<close> of the
    fourth, fifth and sixth phase) changes the exit code: it is 0.
\<close>

theorem C1_exit_code_table:
  assumes "check_dependencies E (controller a) (banner w) = (r1, w1)"
    and "stop_existing_containers E (controller a) w1 = (r2, w2)"
    and "launch_container E (controller a) w2 = (r3, d3, w3)"
    and "wait_for_service E d3 w3 = (r4, w4)"
    and "update_tauri_config E d3 w4 = (r5, w5)"
    and "launch_tauri E d3 w5 = (r6, w6)"
  shows "(fst (main E a w) = Exit 1 \<longleftrightarrow>
            (\<forall>e. fst (main E a w) \<noteq> Uncaught e)
            \<and> (r1 = Return False
               \<or> (r1 = Return True \<and> r2 = Return () \<and> r3 = Return False)
               \<or> (\<exists>e. is_Exception e \<and> fst (run_body E (controller a) (banner w)) = Raise e)))
       \<and> (fst (main E a w) = Exit 0 \<longleftrightarrow>
            (\<forall>e. fst (main E a w) \<noteq> Uncaught e)
            \<and> ((r1 = Return True \<and> r2 = Return () \<and> r3 = Return True
                 \<and> (\<exists>b. r4 = Return b) \<and> (\<exists>b. r5 = Return b) \<and> (\<exists>b. r6 = Return b))
               \<or> fst (run_body E (controller a) (banner w)) = Raise KeyboardInterrupt))
       \<and> (\<forall>n. fst (main E a w) = Exit n \<longrightarrow> n = 0 \<or> n = 1)
       \<and> ((\<forall>e. fst (main E a w) \<noteq> Uncaught e)
            \<and> r1 = Return True \<and> r2 = Return () \<and> r3 = Return True
            \<and> (\<exists>b. r4 = Return b) \<and> (\<exists>b. r5 = Return b) \<and> (\<exists>b. r6 = Return b)
          \<longrightarrow> fst (main E a w) = Exit 0)"
proof -
  let ?d = "controller a"
  obtain rb db wb where body: "run_body E ?d (banner w) = (rb, db, wb)"
    by (metis prod_cases3)
  obtain c wc where c: "cleanup E db (snd (handlers E rb wb)) = (c, wc)" by force
  let ?ok = "fst (handlers E rb wb)"
  have m: "fst (main E a w) = (case c of Return u \<Rightarrow> Exit (if ?ok then 0 else 1) | Raise e \<Rightarrow> Uncaught e)"
    using main_exit_code [OF body c] by simp
  have rb: "fst (run_body E ?d (banner w)) = rb" using body by simp
  let ?through = "r1 = Return True \<and> r2 = Return () \<and> r3 = Return True
                 \<and> (\<exists>b. r4 = Return b) \<and> (\<exists>b. r5 = Return b) \<and> (\<exists>b. r6 = Return b)"
  let ?early = "r1 = Return False \<or> (r1 = Return True \<and> r2 = Return () \<and> r3 = Return False)"
  have none: "rb = Return None \<longleftrightarrow> ?through"
    using run_body_falls_through [OF assms] rb by simp
  have some: "rb = Return (Some b) \<longleftrightarrow> \<not> b \<and> ?early" for b
    using run_body_returns_early [OF assms(1-3), of b] rb by simp
  have ok: "?ok \<longleftrightarrow> ?through \<or> rb = Raise KeyboardInterrupt"
  proof (cases rb)
    case (Return x)
    show ?thesis
    proof (cases x)
      case None
      with Return none show ?thesis by (simp add: handlers_result)
    next
      case (Some b)
      with Return some [of b] none show ?thesis by (auto simp: handlers_result)
    qed
  next
    case (Raise e)
    with none show ?thesis by (cases e) (auto simp: handlers_result)
  qed
  have not_ok: "\<not> ?ok \<longleftrightarrow> ?early \<or> (\<exists>e. is_Exception e \<and> rb = Raise e)"
  proof (cases rb)
    case (Return x)
    show ?thesis
    proof (cases x)
      case None
      with Return none show ?thesis by (auto simp: handlers_result)
    next
      case (Some b)
      with Return some [of b] show ?thesis by (auto simp: handlers_result)
    qed
  next
    case (Raise e)
    with none some show ?thesis by (cases e) (auto simp: handlers_result)
  qed
  have ret: "(\<forall>e. fst (main E a w) \<noteq> Uncaught e) \<longleftrightarrow> c = Return ()"
    unfolding m by (cases c) auto
  have 1: "fst (main E a w) = Exit 1 \<longleftrightarrow>
            (\<forall>e. fst (main E a w) \<noteq> Uncaught e)
            \<and> (?early \<or> (\<exists>e. is_Exception e \<and> fst (run_body E ?d (banner w)) = Raise e))"
    unfolding ret rb not_ok [symmetric] unfolding m by (cases c) auto
  have 2: "fst (main E a w) = Exit 0 \<longleftrightarrow>
            (\<forall>e. fst (main E a w) \<noteq> Uncaught e)
            \<and> (?through \<or> fst (run_body E ?d (banner w)) = Raise KeyboardInterrupt)"
    unfolding ret rb ok [symmetric] unfolding m by (cases c) auto
  have 3: "n = 0 \<or> n = 1" if "fst (main E a w) = Exit n" for n
    using that unfolding m by (cases c) (auto split: if_splits)
  from 1 2 3 show ?thesis by blast
qed

text \<open>
  Two runs of scenario A: the configuration cannot be written (the exit code is not 1), and
  the daemon is down (the exit code is not 0).
\<close>

theorem C1_exit_code_table_witness:
  "fst (main readonly_env scenario_A fresh_world) = Exit 0
   \<and> fst (main daemon_down_env scenario_A fresh_world) = Exit 1"
proof -
  let ?d = "controller scenario_A" and ?w = "banner fresh_world"
  have first: "fst (main readonly_env scenario_A fresh_world) = Exit 0"
  proof -
    let ?E = readonly_env
    note b = benign_readonly_env and i = not_interrupts_readonly_env
    obtain w1 where p1: "check_dependencies ?E ?d ?w = (Return True, w1)"
      using returns_not_interrupted [OF returns_check_dependencies [OF b] i, of ?d ?w]
      by (cases "check_dependencies ?E ?d ?w") auto
    obtain w2 where p2: "stop_existing_containers ?E ?d w1 = (Return (), w2)"
      using returns_not_interrupted [OF returns_stop_existing_containers [OF b] i, of ?d w1]
      by (cases "stop_existing_containers ?E ?d w1") auto
    obtain d3 w3 where p3: "launch_container ?E ?d w2 = (Return True, d3, w3)"
      using returns_not_interrupted [OF returns_launch_container [OF b] i, of ?d w2]
      by (cases "launch_container ?E ?d w2") auto
    obtain r4 w4 where p4: "wait_for_service ?E d3 w3 = (Return r4, w4)"
      using returns_not_interrupted [OF returns_wait_for_service [OF b] i, of d3 w3]
      by (cases "wait_for_service ?E d3 w3") auto
    obtain r5 w5 where p5: "update_tauri_config ?E d3 w4 = (Return r5, w5)"
      using returns_not_interrupted [OF returns_update_tauri_config [OF b] i, of d3 w4]
      by (cases "update_tauri_config ?E d3 w4") auto
    obtain r6 w6 where p6: "launch_tauri ?E d3 w5 = (Return r6, w6)"
      using launch_tauri_benign [OF b, of d3 w5]
      by (cases "launch_tauri ?E d3 w5") auto
    have "\<not> r5"
      by (rule update_tauri_config_write_fails [OF p5]) (simp add: readonly_env_def)
    have "fst (main ?E scenario_A fresh_world) \<noteq> Uncaught e" for e
      by (rule main_not_uncaught, rule cleanup_returns)
         (simp_all add: readonly_env_def quiet_env_def)
    with C1_exit_code_table [OF p1 p2 p3 p4 p5 p6] show ?thesis
      by blast
  qed
  have second: "fst (main daemon_down_env scenario_A fresh_world) = Exit 1"
  proof -
    let ?E = daemon_down_env
    obtain r1 w1 where p1: "check_dependencies ?E ?d ?w = (r1, w1)" by force
    obtain r2 w2 where p2: "stop_existing_containers ?E ?d w1 = (r2, w2)" by force
    obtain r3 d3 w3 where p3: "launch_container ?E ?d w2 = (r3, d3, w3)" by (metis prod_cases3)
    obtain r4 w4 where p4: "wait_for_service ?E d3 w3 = (r4, w4)" by force
    obtain r5 w5 where p5: "update_tauri_config ?E d3 w4 = (r5, w5)" by force
    obtain r6 w6 where p6: "launch_tauri ?E d3 w5 = (r6, w6)" by force
    have "fst (check_dependencies ?E ?d ?w) = Return False"
      by (simp add: check_dependencies_def command_exists_def subprocess_run_check_def
                    subprocess_run_def daemon_down_env_def)
    with p1 have r1: "r1 = Return False" by simp
    have "fst (main ?E scenario_A fresh_world) \<noteq> Uncaught e" for e
      by (rule main_not_uncaught, rule cleanup_returns)
         (simp_all add: daemon_down_env_def quiet_env_def)
    with C1_exit_code_table [OF p1 p2 p3 p4 p5 p6] r1 show ?thesis
      by blast
  qed
  from first second show ?thesis ..
qed

subsection \<open>C2: the ports\<close>

lemma trace_extends: "extends w w' \<Longrightarrow> set (trace w) \<subseteq> set (trace w')"
  by (auto simp: extends_iff)

lemma new_events_in_trace: "e \<in> set (new_events w w') \<Longrightarrow> e \<in> set (trace w')"
  by (auto simp: new_events_def dest: in_set_dropD)

lemma run_body_uses_ports:
  assumes "check_dependencies E d w = (Return True, w1)"
  shows "Cmd [''docker'', ''ps'', ''-q'', ''--filter'', ''publish='' @ host_port d]
           \<in> set (trace (snd (snd (run_body E d w))))"
    and "fst (stop_existing_containers E d w1) = Return () \<Longrightarrow>
           Cmd (docker_run_argv d) \<in> set (trace (snd (snd (run_body E d w))))"
proof -
  obtain r2 w2 where p2: "stop_existing_containers E d w1 = (r2, w2)" by force
  obtain r3 d3 w3 where p3: "launch_container E d w2 = (r3, d3, w3)" by (metis prod_cases3)
  obtain r4 w4 where p4: "wait_for_service E d3 w3 = (r4, w4)" by force
  obtain r5 w5 where p5: "update_tauri_config E d3 w4 = (r5, w5)" by force
  obtain r6 w6 where p6: "launch_tauri E d3 w5 = (r6, w6)" by force
  note ph = run_body_phases [OF assms p2 p3 p4 p5 p6]
  let ?wf = "snd (snd (run_body E d w))"
  have e23: "extends w2 w3" by (rule extends_launch_container [OF p3])
  have e34: "extends w3 w4" by (rule extends_wait_for_service [OF p4])
  have e45: "extends w4 w5" by (rule extends_update_tauri_config [OF p5])
  have e56: "extends w5 w6" by (rule extends_launch_tauri [OF p6])
  note e35 = extends_trans [OF e34 e45]
  note e36 = extends_trans [OF e35 e56]
  have from3: "r2 = Return () \<Longrightarrow> extends w3 ?wf"
    unfolding ph using e34 e35 e36 by (cases r3; cases r4; cases r5; cases r6) simp_all
  have from2: "extends w2 ?wf"
  proof (cases r2)
    case (Return u)
    then have "extends w3 ?wf" by (simp add: from3)
    with e23 show ?thesis by (rule extends_trans)
  next
    case (Raise e)
    then show ?thesis unfolding ph by simp
  qed
  have "Cmd [''docker'', ''ps'', ''-q'', ''--filter'', ''publish='' @ host_port d] \<in> set (trace w2)"
    using stop_existing_containers_issues_query [of d w1 E] p2
    by (auto dest: new_events_in_trace)
  with trace_extends [OF from2]
  show "Cmd [''docker'', ''ps'', ''-q'', ''--filter'', ''publish='' @ host_port d] \<in> set (trace ?wf)"
    by blast
  assume "fst (stop_existing_containers E d w1) = Return ()"
  with p2 have r2: "r2 = Return ()" by simp
  have "Cmd (docker_run_argv d) \<in> set (trace w3)"
    using launch_container_issues_run [of d w2 E] p3
    by (auto dest: new_events_in_trace)
  with trace_extends [OF from3 [OF r2]]
  show "Cmd (docker_run_argv d) \<in> set (trace ?wf)"
    by blast
qed

lemma run_body_trace_in_main:
  "set (trace (snd (snd (run_body E (controller a) (banner w))))) \<subseteq> set (trace (snd (main E a w)))"
proof -
  obtain rb wb wh c where
    body: "run_body E (controller a) (banner w) = (rb, fst (snd (run E (controller a) w)), wb)"
    and wh: "wh = snd (handlers E rb wb)"
    and c: "cleanup E (fst (snd (run E (controller a) w))) wh = (c, snd (snd (run E (controller a) w)))"
    by (rule run_ends_with_cleanup)
  have "extends wb wh"
    using extends_handlers [of E rb wb "fst (handlers E rb wb)" wh] wh by simp
  also have "extends wh (snd (snd (run E (controller a) w)))"
    by (rule extends_cleanup [OF c])
  finally have "extends wb (snd (main E a w))"
    by (simp add: main_world)
  with body show ?thesis
    by (simp add: trace_extends)
qed

lemma quiet_run_reaches_launch:
  "fst (check_dependencies quiet_env d w) = Return True"
  "fst (stop_existing_containers quiet_env d w) = Return ()"
  using returns_not_interrupted [OF returns_check_dependencies [OF benign_quiet_env] not_interrupts_quiet_env, of d w]
        returns_not_interrupted [OF returns_stop_existing_containers [OF benign_quiet_env] not_interrupts_quiet_env, of d w]
  by auto

text \<open>
  C2, as the specification states it, fails: nothing in the program validates a port. The
  port numbers come from \<^verbatim>\<open>argparse\<close> with \<^verbatim>\<open>type=int\<close>, \<^verbatim>\<open>__init__\<close> stores them, and every
  phase uses them as they are. A request with host port 70000 and container port 0 is not
  rejected: both numbers are used in the query for old containers and handed to
  \<^verbatim>\<open>docker run\<close>.
\<close>

theorem C2_port_out_of_range_is_used:
  "\<not> (1 \<le> arg_host_port bad_ports \<and> arg_host_port bad_ports \<le> 65535)
   \<and> \<not> (1 \<le> arg_container_port bad_ports \<and> arg_container_port bad_ports \<le> 65535)
   \<and> Cmd [''docker'', ''ps'', ''-q'', ''--filter'', ''publish=70000'']
        \<in> set (trace (snd (main quiet_env bad_ports fresh_world)))
   \<and> Cmd [''docker'', ''run'', ''-d'', ''-p'', ''70000:0'', ''--name'', ''dock2tauri-nginx-alpine-70000'',
           ''--restart'', ''unless-stopped'', ''nginx:alpine'']
        \<in> set (trace (snd (main quiet_env bad_ports fresh_world)))"
proof -
  let ?d = "controller bad_ports" and ?w = "banner fresh_world"
  obtain w1 where p1: "check_dependencies quiet_env ?d ?w = (Return True, w1)"
    using quiet_run_reaches_launch(1) [of ?d ?w]
    by (cases "check_dependencies quiet_env ?d ?w") auto
  have hp: "host_port ?d = ''70000''"
    by (simp add: controller_def init_def bad_ports_def str_int_70000)
  have argv: "docker_run_argv ?d =
      [''docker'', ''run'', ''-d'', ''-p'', ''70000:0'', ''--name'', ''dock2tauri-nginx-alpine-70000'',
       ''--restart'', ''unless-stopped'', ''nginx:alpine'']"
    by (simp add: docker_run_argv_def controller_def init_def bad_ports_def str_int_70000 str_int_0
                  replace_colon_slash)
  from run_body_uses_ports(1) [OF p1] run_body_trace_in_main [of quiet_env bad_ports fresh_world]
  have a: "Cmd [''docker'', ''ps'', ''-q'', ''--filter'', ''publish=70000'']
        \<in> set (trace (snd (main quiet_env bad_ports fresh_world)))"
    by (auto simp: hp)
  from run_body_uses_ports(2) [OF p1 quiet_run_reaches_launch(2)]
       run_body_trace_in_main [of quiet_env bad_ports fresh_world]
  have b: "Cmd (docker_run_argv ?d) \<in> set (trace (snd (main quiet_env bad_ports fresh_world)))"
    by auto
  have r: "\<not> (1 \<le> arg_host_port bad_ports \<and> arg_host_port bad_ports \<le> 65535)"
    "\<not> (1 \<le> arg_container_port bad_ports \<and> arg_container_port bad_ports \<le> 65535)"
    by (simp_all add: bad_ports_def)
  from b have "Cmd [''docker'', ''run'', ''-d'', ''-p'', ''70000:0'', ''--name'', ''dock2tauri-nginx-alpine-70000'',
           ''--restart'', ''unless-stopped'', ''nginx:alpine'']
        \<in> set (trace (snd (main quiet_env bad_ports fresh_world)))"
    by (simp only: argv)
  with a r show ?thesis by blast
qed

text \<open>
  C2, amended. The ports are not validated: for every two integers given as host port and
  container port, the controller holds their decimal representations, and they are used as
  given. Once the dependency check has passed, the query for old containers is issued with
  the host port; once the old containers are dealt with, \<^verbatim>\<open>docker run\<close> is issued with
  \<^verbatim>\<open>-p <host port>:<container port>\<close>; and the generated configuration points to
  \<^verbatim>\<open>http://localhost:<host port>\<close>. No request is rejected for its ports by the program; what
  \<^verbatim>\<open>docker run\<close> answers to them decides whether the launch fails.
\<close>

theorem C2_ports_used_as_given:
  "host_port (controller a) = str_int (arg_host_port a)
   \<and> container_port (controller a) = str_int (arg_container_port a)
   \<and> (fst (check_dependencies E (controller a) (banner w)) = Return True \<longrightarrow>
        Cmd [''docker'', ''ps'', ''-q'', ''--filter'', ''publish='' @ str_int (arg_host_port a)]
          \<in> set (trace (snd (main E a w))))
   \<and> (fst (check_dependencies E (controller a) (banner w)) = Return True
        \<and> fst (stop_existing_containers E (controller a)
                 (snd (check_dependencies E (controller a) (banner w)))) = Return () \<longrightarrow>
        Cmd [''docker'', ''run'', ''-d'',
             ''-p'', str_int (arg_host_port a) @ '':'' @ str_int (arg_container_port a),
             ''--name'', container_name (controller a),
             ''--restart'', ''unless-stopped'',
             arg_image a]
          \<in> set (trace (snd (main E a w))))
   \<and> Option.bind (json_get ''build'' (tauri_config (controller a))) (json_get ''devUrl'')
       = Some (JStr (''http://localhost:'' @ str_int (arg_host_port a)))"
proof -
  let ?d = "controller a"
  have hp: "host_port ?d = str_int (arg_host_port a)"
    and cp: "container_port ?d = str_int (arg_container_port a)"
    and img: "image ?d = arg_image a"
    by (simp_all add: controller_def init_def)
  have 1: "Cmd [''docker'', ''ps'', ''-q'', ''--filter'', ''publish='' @ str_int (arg_host_port a)]
          \<in> set (trace (snd (main E a w)))"
    if "fst (check_dependencies E ?d (banner w)) = Return True"
  proof -
    from that have p1: "check_dependencies E ?d (banner w)
                          = (Return True, snd (check_dependencies E ?d (banner w)))"
      by (cases "check_dependencies E ?d (banner w)") simp
    from run_body_uses_ports(1) [OF p1] run_body_trace_in_main [of E a w] show ?thesis
      by (auto simp: hp)
  qed
  have 2: "Cmd [''docker'', ''run'', ''-d'',
             ''-p'', str_int (arg_host_port a) @ '':'' @ str_int (arg_container_port a),
             ''--name'', container_name ?d, ''--restart'', ''unless-stopped'', arg_image a]
          \<in> set (trace (snd (main E a w)))"
    if "fst (check_dependencies E ?d (banner w)) = Return True"
       "fst (stop_existing_containers E ?d (snd (check_dependencies E ?d (banner w)))) = Return ()"
  proof -
    from that(1) have p1: "check_dependencies E ?d (banner w)
                          = (Return True, snd (check_dependencies E ?d (banner w)))"
      by (cases "check_dependencies E ?d (banner w)") simp
    from run_body_uses_ports(2) [OF p1 that(2)] run_body_trace_in_main [of E a w]
    have "Cmd (docker_run_argv ?d) \<in> set (trace (snd (main E a w)))"
      by auto
    then show ?thesis
      by (simp add: docker_run_argv_def hp cp img)
  qed
  have 3: "Option.bind (json_get ''build'' (tauri_config ?d)) (json_get ''devUrl'')
       = Some (JStr (''http://localhost:'' @ str_int (arg_host_port a)))"
    by (simp add: dev_url hp)
  from hp cp 1 2 3 show ?thesis by blast
qed

text \<open>Scenario A, with its ports 8088 and 80, in the quiet environment.\<close>

theorem C2_ports_used_as_given_witness:
  "fst (check_dependencies quiet_env (controller scenario_A) (banner fresh_world)) = Return True
   \<and> fst (stop_existing_containers quiet_env (controller scenario_A)
            (snd (check_dependencies quiet_env (controller scenario_A) (banner fresh_world)))) = Return ()
   \<and> Cmd [''docker'', ''ps'', ''-q'', ''--filter'', ''publish=8088'']
        \<in> set (trace (snd (main quiet_env scenario_A fresh_world)))
   \<and> Cmd [''docker'', ''run'', ''-d'', ''-p'', ''8088:80'', ''--name'', ''dock2tauri-nginx-alpine-8088'',
           ''--restart'', ''unless-stopped'', ''nginx:alpine'']
        \<in> set (trace (snd (main quiet_env scenario_A fresh_world)))"
proof -
  let ?d = "controller scenario_A"
  note q = quiet_run_reaches_launch(1) [of ?d "banner fresh_world"]
    quiet_run_reaches_launch(2) [of ?d "snd (check_dependencies quiet_env ?d (banner fresh_world))"]
  have name: "container_name ?d = ''dock2tauri-nginx-alpine-8088''"
    by (simp add: controller_def init_def scenario_A_def str_int_8088 replace_colon_slash)
  have hp: "str_int (arg_host_port scenario_A) = ''8088''"
    and cp: "str_int (arg_container_port scenario_A) = ''80''"
    and img: "arg_image scenario_A = ''nginx:alpine''"
    by (simp_all add: scenario_A_def str_int_8088 str_int_80)
  from C2_ports_used_as_given [of scenario_A quiet_env fresh_world] q
  have "Cmd [''docker'', ''ps'', ''-q'', ''--filter'', ''publish='' @ str_int (arg_host_port scenario_A)]
          \<in> set (trace (snd (main quiet_env scenario_A fresh_world)))
      \<and> Cmd [''docker'', ''run'', ''-d'',
             ''-p'', str_int (arg_host_port scenario_A) @ '':'' @ str_int (arg_container_port scenario_A),
             ''--name'', container_name ?d, ''--restart'', ''unless-stopped'', arg_image scenario_A]
          \<in> set (trace (snd (main quiet_env scenario_A fresh_world)))"
    by blast
  then have "Cmd [''docker'', ''ps'', ''-q'', ''--filter'', ''publish=8088'']
        \<in> set (trace (snd (main quiet_env scenario_A fresh_world)))
   \<and> Cmd [''docker'', ''run'', ''-d'', ''-p'', ''8088:80'', ''--name'', ''dock2tauri-nginx-alpine-8088'',
           ''--restart'', ''unless-stopped'', ''nginx:alpine'']
        \<in> set (trace (snd (main quiet_env scenario_A fresh_world)))"
    by (simp add: name hp cp img)
  with q show ?thesis by blast
qed

subsection \<open>C10: a user interrupt counts as success\<close>












end
